theory Spec2Isabelle
  imports Main "HOL-Library.Word"
begin

section \<open>FluidNightmare: the main invokee of source/main.cpp\<close>

text \<open>
  A shallow embedding of \<^verbatim>\<open>fluid_nightmare_main\<close> (source/main.cpp). The members of
  the class are the fields of one record; \<^verbatim>\<open>initialize\<close>, \<^verbatim>\<open>update\<close> and
  \<^verbatim>\<open>render\<close> pass that record along. Objects the framework creates (buffers, buffer
  views, acceleration structures, images) are values that record the arguments they were
  created from.
\<close>

subsection \<open>Numbers\<close>

text \<open>
  Single-precision values are kept as the expressions the source writes, never rounded or
  simplified: a literal \<^verbatim>\<open>0.8f\<close> is \<open>Float_lit 8 1\<close> (8 / 10^1), and
  \<^verbatim>\<open>glm::radians(x) * 0.5f\<close> is \<open>Fmul (Radians x) (Float_lit 5 1)\<close>. Only equalities
  between such expressions are stated.
\<close>

datatype float_expr =
    Float_lit int nat
  | Radians float_expr
  | Fmul float_expr float_expr

type_synonym vec3 = "float_expr \<times> float_expr \<times> float_expr"
type_synonym vec4 = "float_expr \<times> float_expr \<times> float_expr \<times> float_expr"
type_synonym mat4 = "float_expr list"

type_synonym uint32_t = "32 word"
type_synonym int_t = "32 word"      \<comment> \<open>C++ int, read with sint\<close>
type_synonym int64_t = "64 word"    \<comment> \<open>read with sint\<close>

subsection \<open>The scene handed over by the loader\<close>

text \<open>
  \<^verbatim>\<open>gvk::model_t\<close> is used through \<^verbatim>\<open>distinct_material_configs()\<close> only; the result of
  that call (material, indices of the meshes that have it), in iteration order, is the
  field. \<^verbatim>\<open>'mat\<close> stands for \<^verbatim>\<open>gvk::material_config\<close>.
\<close>

record 'mat model_t =
  distinct_material_configs :: "('mat \<times> nat list) list"

record model_instance_data =
  mTranslation :: vec3
  mScaling :: vec3
  mRotation :: vec3

record 'mat model_data =
  mName :: string
  mLoadedModel :: "'mat model_t"
  mInstances :: "model_instance_data list"

subsection \<open>Buffers, buffer views, acceleration structures\<close>

text \<open>
  A buffer is identified by its kind and the selection of meshes it was filled from; usage
  flags and meta data of the calls in lines 53-58 are not represented. An acceleration
  structure records the geometry it was sized for and built from, a geometry instance the
  structure it refers to, its transformation and its custom index.
\<close>

type_synonym 'mat selection = "'mat model_t \<times> nat list"

definition make_models_and_meshes_selection ::
    "'mat model_t \<Rightarrow> nat list \<Rightarrow> 'mat selection" where
  "make_models_and_meshes_selection loadedModel meshIndices = (loadedModel, meshIndices)"

datatype 'mat buffer =
    Positions_buffer "'mat selection"
  | Index_buffer "'mat selection"
  | Normals_buffer "'mat selection"
  | Tex_coords_buffer "'mat selection"

definition create_vertex_and_index_buffers :: "'mat selection \<Rightarrow> 'mat buffer \<times> 'mat buffer" where
  "create_vertex_and_index_buffers sel = (Positions_buffer sel, Index_buffer sel)"

definition create_normals_buffer :: "'mat selection \<Rightarrow> 'mat buffer" where
  "create_normals_buffer sel = Normals_buffer sel"

definition create_2d_texture_coordinates_buffer :: "'mat selection \<Rightarrow> 'mat buffer" where
  "create_2d_texture_coordinates_buffer sel = Tex_coords_buffer sel"

datatype 'mat buffer_view = Buffer_view "'mat buffer"

definition create_buffer_view :: "'mat buffer \<Rightarrow> 'mat buffer_view" where
  "create_buffer_view bfr = Buffer_view bfr"

type_synonym 'mat vertex_index_buffer_pair = "'mat buffer \<times> 'mat buffer"

record 'mat bottom_level_acceleration_structure =
  blas_size_requirements :: "'mat vertex_index_buffer_pair list"
  blas_allow_updates :: bool
  blas_built_from :: "'mat vertex_index_buffer_pair list option"

definition create_bottom_level_acceleration_structure ::
    "'mat vertex_index_buffer_pair list \<Rightarrow> bool \<Rightarrow> 'mat bottom_level_acceleration_structure" where
  "create_bottom_level_acceleration_structure geometry allowUpdates =
     \<lparr>blas_size_requirements = geometry, blas_allow_updates = allowUpdates,
      blas_built_from = None\<rparr>"

definition blas_build ::
    "'mat vertex_index_buffer_pair list \<Rightarrow> 'mat bottom_level_acceleration_structure
     \<Rightarrow> 'mat bottom_level_acceleration_structure" where
  "blas_build geometry blas = blas\<lparr>blas_built_from := Some geometry\<rparr>"

datatype transform_matrix =
    Identity_matrix
  | Matrix_from_transforms vec3 vec3 vec3   \<comment> \<open>translation, rotation (as quaternion), scaling\<close>

record 'mat geometry_instance =
  mAccelerationStructure :: "'mat bottom_level_acceleration_structure"
  mTransform :: transform_matrix
  mInstanceCustomIndex :: uint32_t

definition create_geometry_instance ::
    "'mat bottom_level_acceleration_structure \<Rightarrow> 'mat geometry_instance" where
  "create_geometry_instance blas =
     \<lparr>mAccelerationStructure = blas, mTransform = Identity_matrix, mInstanceCustomIndex = 0\<rparr>"

definition set_transform_column_major ::
    "transform_matrix \<Rightarrow> 'mat geometry_instance \<Rightarrow> 'mat geometry_instance" where
  "set_transform_column_major m g = g\<lparr>mTransform := m\<rparr>"

definition set_custom_index :: "uint32_t \<Rightarrow> 'mat geometry_instance \<Rightarrow> 'mat geometry_instance" where
  "set_custom_index i g = g\<lparr>mInstanceCustomIndex := i\<rparr>"

record 'mat top_level_acceleration_structure =
  tlas_instance_count :: nat
  tlas_allow_updates :: bool
  tlas_built_from :: "'mat geometry_instance list option"

definition create_top_level_acceleration_structure ::
    "nat \<Rightarrow> bool \<Rightarrow> 'mat top_level_acceleration_structure" where
  "create_top_level_acceleration_structure instanceCount allowUpdates =
     \<lparr>tlas_instance_count = instanceCount, tlas_allow_updates = allowUpdates,
      tlas_built_from = None\<rparr>"

definition tlas_build ::
    "'mat geometry_instance list \<Rightarrow> 'mat top_level_acceleration_structure
     \<Rightarrow> 'mat top_level_acceleration_structure" where
  "tlas_build instances tlas = tlas\<lparr>tlas_built_from := Some instances\<rparr>"

subsection \<open>Materials for the GPU\<close>

datatype 'mat material_gpu_data = Material_gpu_data 'mat bool bool

datatype 'mat image_samplers = Image_samplers "'mat list" bool bool

text \<open>
  Modelled from the spec: \<^verbatim>\<open>gvk::convert_for_gpu_usage\<close> is not under src/. Section 4.5:
  it converts a list of material descriptors into a packed array (one entry per descriptor,
  in order) plus the image and sampler resources. The two flags are "assume textures in
  sRGB" and "flip textures"; usage, filter mode and border handling are fixed in the call.
\<close>

definition convert_for_gpu_usage ::
    "'mat list \<Rightarrow> bool \<Rightarrow> bool \<Rightarrow> 'mat material_gpu_data list \<times> 'mat image_samplers" where
  "convert_for_gpu_usage materialData srgb flip =
     (map (\<lambda>m. Material_gpu_data m srgb flip) materialData,
      Image_samplers materialData srgb flip)"

subsection \<open>Images, descriptors and the pipeline\<close>

type_synonym handle = nat

record image_t =
  image_width :: nat
  image_height :: nat
  image_format :: nat
  image_num_layers :: nat
  image_layout_transitioned :: bool

record image_view =
  view_handle :: handle
  view_image :: image_t

text \<open>
  The material buffer: created for the number of elements of the data it is created from
  (\<^verbatim>\<open>create_from_data\<close>), then filled with data from offset 0.
\<close>

record 'mat storage_buffer =
  sb_num_elements :: nat
  sb_content :: "'mat material_gpu_data list"

definition create_buffer_from_data :: "'mat material_gpu_data list \<Rightarrow> 'mat storage_buffer" where
  "create_buffer_from_data dat = \<lparr>sb_num_elements = length dat, sb_content = []\<rparr>"

definition buffer_fill :: "'mat material_gpu_data list \<Rightarrow> 'mat storage_buffer \<Rightarrow> 'mat storage_buffer" where
  "buffer_fill dat bfr = bfr\<lparr>sb_content := take (sb_num_elements bfr) dat\<rparr>"

datatype shader_info =
    Ray_generation_shader string
  | Triangles_hit_group_rchit_only string
  | Miss_shader string

datatype shader_type = Ray_generation | Closest_hit | Miss

record push_constant_binding_data =
  mShaderStages :: "shader_type set"
  mOffset :: nat
  mSize :: nat

datatype 'mat resource =
    Bound_image_samplers "'mat image_samplers option"
  | Bound_buffer "'mat storage_buffer"
  | Bound_uniform_texel_buffer_views "'mat buffer_view list"
  | Bound_storage_image image_view
  | Bound_tlas "'mat top_level_acceleration_structure"

record 'mat binding_data =
  mSetId :: nat
  mBinding :: nat
  mResource :: "'mat resource"

definition descriptor_binding :: "nat \<Rightarrow> nat \<Rightarrow> 'mat resource \<Rightarrow> 'mat binding_data" where
  "descriptor_binding s b r = \<lparr>mSetId = s, mBinding = b, mResource = r\<rparr>"

type_synonym 'mat descriptor_set = "'mat binding_data list"

record 'mat ray_tracing_pipeline =
  pipeline_handle :: handle
  mShaderTable :: "shader_info list"
  mMaxRecursionDepth :: nat
  mPushConstants :: push_constant_binding_data
  mResourceBindings :: "'mat binding_data list"

text \<open>
  Modelled from the spec: \<^verbatim>\<open>struct push_const_data\<close> is declared in
  cpu_to_gpu_data_types.hpp, which is not under src/. Section 6 gives its layout: a 4x4
  matrix, four floats, a 4-component vector, all of 4-byte floats, so 24 floats. A value
  of the struct is the list of its members in declaration order, which is the order of
  the clauses of the aggregate initialiser in \<^verbatim>\<open>render\<close>.
\<close>

datatype push_const_member = Mat4_member mat4 | Float_member float_expr | Vec4_member vec4

type_synonym push_const_data = "push_const_member list"

definition sizeof_push_const_data :: nat where
  "sizeof_push_const_data = 4 * (16 + 4 + 4)"

subsection \<open>Window, input, camera, updater\<close>

text \<open>
  What the framework's context and main window report to the application: the resolution,
  the colour format, the id of the current frame and the number of frames in flight (both
  \<^verbatim>\<open>int64_t\<close>), the recursion depth limit, the current backbuffer and its
  image-available semaphore, whether a UI manager is part of the composition; and the
  next unused handle for the objects the context creates.
\<close>

record context_t =
  resolution :: "nat \<times> nat"
  color_buffer_format :: nat
  aspect_ratio :: float_expr
  current_frame :: int64_t
  number_of_frames_in_flight :: int64_t
  max_ray_tracing_recursion_depth :: nat
  current_backbuffer_image :: handle
  image_available_semaphore :: handle
  has_imgui_manager :: bool
  next_handle :: handle

datatype key_code =
    Key_left | Key_right | Key_up | Key_down | Key_page_up | Key_page_down
  | Key_space | Key_escape | Key_f1

record input_t =
  key_down :: "key_code set"
  key_pressed :: "key_code set"

record quake_camera =
  cam_translation :: vec3
  cam_projection :: "(float_expr \<times> float_expr \<times> float_expr \<times> float_expr) option"
  cam_enabled :: bool
  global_transformation_matrix :: mat4

text \<open>
  The updater: the events, updatees and handler the source registers with it
  (lines 160-171), and the superseded image views it keeps, each with the frame it was
  superseded in, until they are destroyed.
\<close>

datatype event = Shader_files_changed_event | Swapchain_resized_event | Destroying_image_view_event

datatype updatee = Updatee_mOffscreenImageView | Updatee_mPipeline

datatype handler = Remove_sets_with_handle

record registration =
  reg_event :: event
  reg_updatees :: "updatee list"
  reg_then_on :: "(event \<times> handler) option"

record updater =
  mRegistrations :: "registration list"
  mUpdateesToCleanUp :: "(int64_t \<times> image_view) list"

subsection \<open>The members of fluid_nightmare_main\<close>

record 'mat fluid_nightmare_main =
  mQueue :: handle
  mDescriptorCache :: "'mat descriptor_set list"
  mLightDir :: vec3
  mMaterialBuffer :: "'mat storage_buffer option"
  mImageSamplers :: "'mat image_samplers option"
  mIndexBufferViews :: "'mat buffer_view list"
  mPositionsBufferViews :: "'mat buffer_view list"
  mTexCoordsBufferViews :: "'mat buffer_view list"
  mNormalsBufferViews :: "'mat buffer_view list"
  mBlasNamesAndRanges :: "(string \<times> int_t \<times> int_t) list"
  mBlas :: "'mat bottom_level_acceleration_structure list"
  mGeometryInstances :: "'mat geometry_instance list"
  mTlas :: "'mat top_level_acceleration_structure option"
  mOffscreenImageView :: "image_view option"
  mPipeline :: "'mat ray_tracing_pipeline option"
  mUpdater :: "updater option"
  mQuakeCam :: quake_camera
  mFieldOfViewForRayTracing :: float_expr
  updateUntilFrame :: int64_t

text \<open>
  The object as the constructor and the default member initialisers leave it
  (lines 17-19, 346, 401, 204): empty vectors, no resources, light direction (0, -1, 0),
  field of view 45, \<^verbatim>\<open>updateUntilFrame = -1\<close>.
\<close>

definition constructed :: "handle \<Rightarrow> quake_camera \<Rightarrow> 'mat fluid_nightmare_main" where
  "constructed aQueue cam =
     \<lparr>mQueue = aQueue, mDescriptorCache = [],
      mLightDir = (Float_lit 0 1, Float_lit (- 10) 1, Float_lit 0 1),
      mMaterialBuffer = None, mImageSamplers = None,
      mIndexBufferViews = [], mPositionsBufferViews = [], mTexCoordsBufferViews = [],
      mNormalsBufferViews = [], mBlasNamesAndRanges = [], mBlas = [],
      mGeometryInstances = [], mTlas = None, mOffscreenImageView = None, mPipeline = None,
      mUpdater = None, mQuakeCam = cam, mFieldOfViewForRayTracing = Float_lit 450 1,
      updateUntilFrame = - 1\<rparr>"

subsection \<open>initialize: loading the scene (lines 39-93)\<close>

text \<open>The body of the loop over \<^verbatim>\<open>model.mInstances\<close> (lines 68-79).\<close>

definition instance_body ::
    "'mat bottom_level_acceleration_structure \<Rightarrow> model_instance_data
     \<Rightarrow> 'mat fluid_nightmare_main \<Rightarrow> 'mat fluid_nightmare_main" where
  "instance_body blas inst st =
     (let bufferViewIndex = (of_nat (length (mTexCoordsBufferViews st)) :: uint32_t)
      in st\<lparr>mGeometryInstances := mGeometryInstances st @
           [set_custom_index bufferViewIndex
              (set_transform_column_major
                 (Matrix_from_transforms (mTranslation inst) (mRotation inst) (mScaling inst))
                 (create_geometry_instance blas))]\<rparr>)"

text \<open>
  The body of the loop over the distinct materials of one model (lines 49-89); the local
  vector \<^verbatim>\<open>materialData\<close> is passed along with the object.
\<close>

definition material_body ::
    "'mat model_data \<Rightarrow> 'mat \<times> nat list
     \<Rightarrow> 'mat fluid_nightmare_main \<times> 'mat list \<Rightarrow> 'mat fluid_nightmare_main \<times> 'mat list" where
  "material_body model entry acc =
     (let materialConfig = fst entry; meshIndices = snd entry;
          st = fst acc; materialData = snd acc @ [materialConfig];
          sel = make_models_and_meshes_selection (mLoadedModel model) meshIndices;
          posBfr = fst (create_vertex_and_index_buffers sel);
          idxBfr = snd (create_vertex_and_index_buffers sel);
          nrmBfr = create_normals_buffer sel;
          texBfr = create_2d_texture_coordinates_buffer sel;
          blas = blas_build [(posBfr, idxBfr)]
                   (create_bottom_level_acceleration_structure [(posBfr, idxBfr)] False);
          st1 = fold (instance_body blas) (mInstances model) st;
          st2 = st1\<lparr>mBlas := mBlas st1 @ [blas]\<rparr>;
          st3 = st2\<lparr>mPositionsBufferViews := mPositionsBufferViews st2 @ [create_buffer_view posBfr]\<rparr>;
          st4 = st3\<lparr>mIndexBufferViews := mIndexBufferViews st3 @ [create_buffer_view idxBfr]\<rparr>;
          st5 = st4\<lparr>mNormalsBufferViews := mNormalsBufferViews st4 @ [create_buffer_view nrmBfr]\<rparr>;
          st6 = st5\<lparr>mTexCoordsBufferViews := mTexCoordsBufferViews st5 @ [create_buffer_view texBfr]\<rparr>
      in (st6, materialData))"

text \<open>
  The body of the loop over the models (lines 39-93). \<^verbatim>\<open>nameAndRangeInfo\<close> refers to
  the entry appended first; nothing else is appended to \<^verbatim>\<open>mBlasNamesAndRanges\<close> until
  its end index is written (line 92), so the entry is the one at the index it was
  appended at.
\<close>

definition model_body ::
    "'mat model_data \<Rightarrow> 'mat fluid_nightmare_main \<times> 'mat list
     \<Rightarrow> 'mat fluid_nightmare_main \<times> 'mat list" where
  "model_body model acc =
     (let st = fst acc;
          nameAndRangeInfo = length (mBlasNamesAndRanges st);
          st1 = st\<lparr>mBlasNamesAndRanges := mBlasNamesAndRanges st @
                  [(mName model, of_nat (length (mGeometryInstances st)), - 1)]\<rparr>;
          acc2 = fold (material_body model) (distinct_material_configs (mLoadedModel model))
                   (st1, snd acc);
          st2 = fst acc2;
          st3 = st2\<lparr>mBlasNamesAndRanges := (mBlasNamesAndRanges st2)
                  [nameAndRangeInfo :=
                     (fst (mBlasNamesAndRanges st2 ! nameAndRangeInfo),
                      fst (snd (mBlasNamesAndRanges st2 ! nameAndRangeInfo)),
                      of_nat (length (mGeometryInstances st2)))]\<rparr>
      in (st3, snd acc2))"

definition load_models ::
    "'mat model_data list \<Rightarrow> 'mat fluid_nightmare_main
     \<Rightarrow> 'mat fluid_nightmare_main \<times> 'mat list" where
  "load_models models st = fold model_body models (st, [])"

subsection \<open>initialize: materials, top-level structure, render target, pipeline (lines 95-178)\<close>

definition create_image :: "nat \<Rightarrow> nat \<Rightarrow> nat \<Rightarrow> nat \<Rightarrow> image_t" where
  "create_image wdth hght frmt numLayers =
     \<lparr>image_width = wdth, image_height = hght, image_format = frmt,
      image_num_layers = numLayers, image_layout_transitioned = False\<rparr>"

definition transition_to_layout :: "image_t \<Rightarrow> image_t" where
  "transition_to_layout img = img\<lparr>image_layout_transitioned := True\<rparr>"

text \<open>Creating an image view or a pipeline takes a new handle from the context.\<close>

definition create_image_view :: "image_t \<Rightarrow> context_t \<Rightarrow> image_view \<times> context_t" where
  "create_image_view img ctx =
     (\<lparr>view_handle = next_handle ctx, view_image = img\<rparr>,
      ctx\<lparr>next_handle := Suc (next_handle ctx)\<rparr>)"

definition create_ray_tracing_pipeline_for ::
    "shader_info list \<Rightarrow> nat \<Rightarrow> push_constant_binding_data \<Rightarrow> 'mat binding_data list
     \<Rightarrow> context_t \<Rightarrow> 'mat ray_tracing_pipeline \<times> context_t" where
  "create_ray_tracing_pipeline_for shaderTable depth pushConstants bindings ctx =
     (\<lparr>pipeline_handle = next_handle ctx, mShaderTable = shaderTable,
       mMaxRecursionDepth = depth, mPushConstants = pushConstants,
       mResourceBindings = bindings\<rparr>,
      ctx\<lparr>next_handle := Suc (next_handle ctx)\<rparr>)"

text \<open>The two registrations with the updater (lines 160-161 and 166-171).\<close>

definition updater_registrations :: "registration list" where
  "updater_registrations =
     [\<lparr>reg_event = Shader_files_changed_event, reg_updatees = [Updatee_mPipeline],
       reg_then_on = None\<rparr>,
      \<lparr>reg_event = Swapchain_resized_event,
       reg_updatees = [Updatee_mOffscreenImageView, Updatee_mPipeline],
       reg_then_on = Some (Destroying_image_view_event, Remove_sets_with_handle)\<rparr>]"

text \<open>
  Lines 25-93 of \<^verbatim>\<open>initialize\<close>: the descriptor cache, the light direction and the
  loop over the models of the scene; the result is the object and \<^verbatim>\<open>materialData\<close>.
\<close>

definition load_scene ::
    "'mat model_data list \<Rightarrow> 'mat fluid_nightmare_main
     \<Rightarrow> 'mat fluid_nightmare_main \<times> 'mat list" where
  "load_scene orca st0 =
     (let st1 = st0\<lparr>mDescriptorCache := []\<rparr>;
          st2 = st1\<lparr>mLightDir := (Float_lit 8 1, Float_lit 10 1, Float_lit 0 1)\<rparr>
      in load_models orca st2)"

text \<open>
  \<^verbatim>\<open>initialize\<close> (lines 21-199), with the scene the loader returned for the file as its
  argument. The camera is added to the composition and the UI callback is registered with
  the framework (lines 178-198); neither changes a member here.
\<close>

definition initialize ::
    "'mat model_data list \<Rightarrow> context_t \<Rightarrow> 'mat fluid_nightmare_main
     \<Rightarrow> 'mat fluid_nightmare_main \<times> context_t" where
  "initialize orca ctx st0 =
     (let loaded = load_scene orca st0;
          st3 = fst loaded;
          materialData = snd loaded;
          converted = convert_for_gpu_usage materialData True True;
          gpuMaterials = fst converted;
          imageSamplers = snd converted;
          st4 = st3\<lparr>mImageSamplers := Some imageSamplers\<rparr>;
          materialBuffer = buffer_fill gpuMaterials (create_buffer_from_data gpuMaterials);
          st5 = st4\<lparr>mMaterialBuffer := Some materialBuffer\<rparr>;
          tlas = tlas_build (mGeometryInstances st5)
                   (create_top_level_acceleration_structure (length (mGeometryInstances st5)) True);
          st6 = st5\<lparr>mTlas := Some tlas\<rparr>;
          wdth = fst (resolution ctx);
          hght = snd (resolution ctx);
          frmt = color_buffer_format ctx;
          offscreenImage = transition_to_layout (create_image wdth hght frmt 1);
          viewed = create_image_view offscreenImage ctx;
          offscreenImageView = fst viewed;
          st7 = st6\<lparr>mOffscreenImageView := Some offscreenImageView\<rparr>;
          piped = create_ray_tracing_pipeline_for
                    [Ray_generation_shader ''shaders/ray_gen_shader.rgen'',
                     Triangles_hit_group_rchit_only ''shaders/closest_hit_shader.rchit'',
                     Miss_shader ''shaders/miss_shader.rmiss'']
                    (max_ray_tracing_recursion_depth ctx)
                    \<lparr>mShaderStages = {Ray_generation, Closest_hit}, mOffset = 0,
                     mSize = sizeof_push_const_data\<rparr>
                    [descriptor_binding 0 0 (Bound_image_samplers (mImageSamplers st7)),
                     descriptor_binding 0 1 (Bound_buffer materialBuffer),
                     descriptor_binding 0 2 (Bound_uniform_texel_buffer_views (mIndexBufferViews st7)),
                     descriptor_binding 0 3 (Bound_uniform_texel_buffer_views (mTexCoordsBufferViews st7)),
                     descriptor_binding 0 4 (Bound_uniform_texel_buffer_views (mNormalsBufferViews st7)),
                     descriptor_binding 1 0 (Bound_storage_image offscreenImageView),
                     descriptor_binding 2 0 (Bound_tlas tlas)]
                    (snd viewed);
          st8 = st7\<lparr>mPipeline := Some (fst piped)\<rparr>;
          st9 = st8\<lparr>mUpdater := Some \<lparr>mRegistrations = updater_registrations,
                                         mUpdateesToCleanUp = []\<rparr>\<rparr>;
          st10 = st9\<lparr>mQuakeCam := (mQuakeCam st9)
                   \<lparr>cam_translation := (Float_lit 0 1, Float_lit 0 1, Float_lit 0 1),
                    cam_projection := Some (Radians (Float_lit 600 1), aspect_ratio ctx,
                                            Float_lit 5 1, Float_lit 1000 1)\<rparr>\<rparr>
      in (st10, snd piped))"

subsection \<open>update (lines 201-266)\<close>

datatype effect = Log_info vec3 | Stop_composition | Enable_user_interaction bool

text \<open>The condition of the \<^verbatim>\<open>if\<close> in line 209, a signed comparison of 64-bit frame ids.\<close>

definition in_update_window :: "context_t \<Rightarrow> 'mat fluid_nightmare_main \<Rightarrow> bool" where
  "in_update_window ctx st = (current_frame ctx \<le>s updateUntilFrame st)"

text \<open>Lines 205-208: a directional key that is down moves the end of the window.\<close>

definition directional_keys :: "input_t \<Rightarrow> 'mat fluid_nightmare_main \<Rightarrow> context_t
     \<Rightarrow> 'mat fluid_nightmare_main" where
  "directional_keys inp st ctx =
     (if Key_left \<in> key_down inp \<or> Key_right \<in> key_down inp \<or> Key_page_down \<in> key_down inp
         \<or> Key_page_up \<in> key_down inp \<or> Key_up \<in> key_down inp \<or> Key_down \<in> key_down inp
      then st\<lparr>updateUntilFrame := current_frame ctx + number_of_frames_in_flight ctx - 1\<rparr>
      else st)"

text \<open>
  \<^verbatim>\<open>update\<close>. Every statement of the block guarded by line 209 is commented out in the
  source (lines 211-243), so both branches leave the object as it is.
\<close>

definition update ::
    "input_t \<Rightarrow> context_t \<Rightarrow> 'mat fluid_nightmare_main
     \<Rightarrow> 'mat fluid_nightmare_main \<times> effect list" where
  "update inp ctx st =
     (let st1 = directional_keys inp st ctx;
          st2 = (if in_update_window ctx st1 then st1 else st1);
          fx1 = (if Key_space \<in> key_pressed inp
                 then [Log_info (cam_translation (mQuakeCam st2))] else []);
          fx2 = (if Key_escape \<in> key_pressed inp then [Stop_composition] else []);
          st3 = (if Key_f1 \<in> key_pressed inp
                 then st2\<lparr>mQuakeCam := (mQuakeCam st2)\<lparr>cam_enabled := \<not> cam_enabled (mQuakeCam st2)\<rparr>\<rparr>
                 else st2);
          fx3 = (if Key_f1 \<in> key_pressed inp \<and> has_imgui_manager ctx
                 then [Enable_user_interaction (cam_enabled (mQuakeCam st2))] else [])
      in (st3, fx1 @ fx2 @ fx3))"

subsection \<open>render (lines 268-331)\<close>

datatype pipeline_stage = Stage_ray_tracing_shaders | Stage_transfer | Stage_color_attachment_output

datatype memory_access =
    Shader_buffers_and_images_write_access
  | Transfer_read_access
  | Transfer_write_access
  | Color_attachment_write_access

text \<open>
  The commands recorded into the command buffer. Pipeline, pipeline layout and shader
  binding table are named by the pipeline's handle, the source of the copy by the
  offscreen image view whose image is copied, its target by the backbuffer's image;
  \<^verbatim>\<open>Trace_rays\<close> carries the extent of the dispatch and the indices of the ray
  generation, miss and hit groups.
\<close>

datatype 'mat command =
    Bind_pipeline handle
  | Bind_descriptors handle "'mat descriptor_set list"
  | Push_constants handle "shader_type set" nat nat push_const_data
  | Trace_rays "nat \<times> nat" handle nat nat nat
  | Global_memory_barrier pipeline_stage pipeline_stage memory_access memory_access
  | Copy_image_to_another image_view handle

datatype recording_state = Initial | Recording | Executable

record 'mat command_buffer =
  cb_state :: recording_state
  cb_commands :: "'mat command list"

definition alloc_command_buffer :: "'mat command_buffer" where
  "alloc_command_buffer = \<lparr>cb_state = Initial, cb_commands = []\<rparr>"

definition begin_recording :: "'mat command_buffer \<Rightarrow> 'mat command_buffer" where
  "begin_recording cb = cb\<lparr>cb_state := Recording\<rparr>"

definition end_recording :: "'mat command_buffer \<Rightarrow> 'mat command_buffer" where
  "end_recording cb = cb\<lparr>cb_state := Executable\<rparr>"

definition record_command :: "'mat command \<Rightarrow> 'mat command_buffer \<Rightarrow> 'mat command_buffer" where
  "record_command c cb = cb\<lparr>cb_commands := cb_commands cb @ [c]\<rparr>"

record 'mat submission =
  sub_queue :: handle
  sub_command_buffer :: "'mat command_buffer"
  sub_wait_semaphore :: handle

text \<open>
  Modelled from the spec: \<^verbatim>\<open>avk::descriptor_cache\<close> is not under src/. Section 4.7 and
  4.8: the cache keeps the descriptor sets it has built, one per set id of the bindings
  asked for, and hands a cached set out again for the same bindings; its cleanup removes
  the sets keyed by the identity (the handle) of an image view.
\<close>

definition get_or_create_descriptor_sets ::
    "'mat binding_data list \<Rightarrow> 'mat descriptor_set list
     \<Rightarrow> 'mat descriptor_set list \<times> 'mat descriptor_set list" where
  "get_or_create_descriptor_sets bindings cache =
     (let sets = map (\<lambda>s. filter (\<lambda>b. mSetId b = s) bindings) (remdups (map mSetId bindings))
      in (sets, fold (\<lambda>ds c. if ds \<in> set c then c else c @ [ds]) sets cache))"

fun binds_handle :: "handle \<Rightarrow> 'mat binding_data \<Rightarrow> bool" where
  "binds_handle h b =
     (case mResource b of Bound_storage_image v \<Rightarrow> view_handle v = h | _ \<Rightarrow> False)"

definition references_handle :: "handle \<Rightarrow> 'mat descriptor_set \<Rightarrow> bool" where
  "references_handle h ds = list_ex (binds_handle h) ds"

definition remove_sets_with_handle ::
    "handle \<Rightarrow> 'mat descriptor_set list \<Rightarrow> 'mat descriptor_set list \<times> nat" where
  "remove_sets_with_handle h cache =
     (filter (\<lambda>ds. \<not> references_handle h ds) cache,
      length (filter (references_handle h) cache))"

text \<open>
  \<^verbatim>\<open>render\<close>. It dereferences the pipeline, the material buffer, the offscreen image view
  and the top-level structure; where one of them is missing the result is \<open>None\<close>.
  Otherwise it returns the object (its descriptor cache may have grown) and the submissions
  made to the queue.
\<close>

definition render ::
    "context_t \<Rightarrow> 'mat fluid_nightmare_main
     \<Rightarrow> ('mat fluid_nightmare_main \<times> 'mat submission list) option" where
  "render ctx st =
     (case (mPipeline st, mMaterialBuffer st, mOffscreenImageView st, mTlas st) of
        (Some pipeline, Some materialBuffer, Some offscreenImageView, Some tlas) \<Rightarrow>
          (let cmdbfr0 = begin_recording alloc_command_buffer;
               cmdbfr1 = record_command (Bind_pipeline (pipeline_handle pipeline)) cmdbfr0;
               sets = get_or_create_descriptor_sets
                        [descriptor_binding 0 0 (Bound_image_samplers (mImageSamplers st)),
                         descriptor_binding 0 1 (Bound_buffer materialBuffer),
                         descriptor_binding 0 2 (Bound_uniform_texel_buffer_views (mIndexBufferViews st)),
                         descriptor_binding 0 3 (Bound_uniform_texel_buffer_views (mTexCoordsBufferViews st)),
                         descriptor_binding 0 4 (Bound_uniform_texel_buffer_views (mNormalsBufferViews st)),
                         descriptor_binding 1 0 (Bound_storage_image offscreenImageView),
                         descriptor_binding 2 0 (Bound_tlas tlas)]
                        (mDescriptorCache st);
               st1 = st\<lparr>mDescriptorCache := snd sets\<rparr>;
               cmdbfr2 = record_command (Bind_descriptors (pipeline_handle pipeline) (fst sets)) cmdbfr1;
               pushConstantsForThisDrawCall =
                 [Mat4_member (global_transformation_matrix (mQuakeCam st1)),
                  Float_member (Fmul (Radians (mFieldOfViewForRayTracing st1)) (Float_lit 5 1)),
                  Float_member (Float_lit 0 0), Float_member (Float_lit 0 0),
                  Float_member (Float_lit 0 0),
                  Vec4_member (fst (mLightDir st1), fst (snd (mLightDir st1)),
                               snd (snd (mLightDir st1)), Float_lit 0 1)];
               cmdbfr3 = record_command
                 (Push_constants (pipeline_handle pipeline) {Ray_generation, Closest_hit} 0
                    sizeof_push_const_data pushConstantsForThisDrawCall) cmdbfr2;
               cmdbfr4 = record_command
                 (Trace_rays (resolution ctx) (pipeline_handle pipeline) 0 0 0) cmdbfr3;
               cmdbfr5 = record_command
                 (Global_memory_barrier Stage_ray_tracing_shaders Stage_transfer
                    Shader_buffers_and_images_write_access Transfer_read_access) cmdbfr4;
               cmdbfr6 = record_command
                 (Copy_image_to_another offscreenImageView (current_backbuffer_image ctx)) cmdbfr5;
               cmdbfr7 = record_command
                 (Global_memory_barrier Stage_transfer Stage_color_attachment_output
                    Transfer_write_access Color_attachment_write_access) cmdbfr6;
               cmdbfr8 = end_recording cmdbfr7;
               imageAvailableSemaphore = image_available_semaphore ctx
           in Some (st1, [\<lparr>sub_queue = mQueue st1, sub_command_buffer = cmdbfr8,
                            sub_wait_semaphore = imageAvailableSemaphore\<rparr>]))
      | _ \<Rightarrow> None)"

subsection \<open>The updater's reactions and the frame loop\<close>

text \<open>
  Modelled from the spec: \<^verbatim>\<open>gvk::updater\<close> is not under src/; the source only registers
  events and updatees with it (lines 156-171). Sections 3 and 4.8: on an event the
  registered updatees are rebuilt in the order given. The render target is rebuilt at the
  window's new dimensions and the superseded one is kept until no frame in flight can
  refer to it; the pipeline is rebuilt with its descriptor binding of the render target
  referring to the current one. When a superseded image view is about to be destroyed,
  the handlers registered for that event are invoked with it.
\<close>

definition rebind :: "'mat fluid_nightmare_main \<Rightarrow> 'mat binding_data \<Rightarrow> 'mat binding_data" where
  "rebind st b =
     (case mResource b of
        Bound_storage_image old \<Rightarrow>
          (case mOffscreenImageView st of
             Some v \<Rightarrow> b\<lparr>mResource := Bound_storage_image v\<rparr>
           | None \<Rightarrow> b)
      | _ \<Rightarrow> b)"

fun recreate_updatee ::
    "updatee \<Rightarrow> 'mat fluid_nightmare_main \<times> context_t \<Rightarrow> 'mat fluid_nightmare_main \<times> context_t" where
  "recreate_updatee Updatee_mOffscreenImageView (st, ctx) =
     (case (mOffscreenImageView st, mUpdater st) of
        (Some old, Some u) \<Rightarrow>
          (let img = transition_to_layout
                       (create_image (fst (resolution ctx)) (snd (resolution ctx))
                          (image_format (view_image old)) (image_num_layers (view_image old)));
               viewed = create_image_view img ctx
           in (st\<lparr>mOffscreenImageView := Some (fst viewed),
                  mUpdater := Some (u\<lparr>mUpdateesToCleanUp :=
                                mUpdateesToCleanUp u @ [(current_frame ctx, old)]\<rparr>)\<rparr>,
               snd viewed))
      | _ \<Rightarrow> (st, ctx))"
| "recreate_updatee Updatee_mPipeline (st, ctx) =
     (case mPipeline st of
        Some p \<Rightarrow>
          (st\<lparr>mPipeline := Some (p\<lparr>pipeline_handle := next_handle ctx,
                                   mResourceBindings := map (rebind st) (mResourceBindings p)\<rparr>)\<rparr>,
           ctx\<lparr>next_handle := Suc (next_handle ctx)\<rparr>)
      | None \<Rightarrow> (st, ctx))"

definition updater_fire ::
    "event \<Rightarrow> 'mat fluid_nightmare_main \<times> context_t \<Rightarrow> 'mat fluid_nightmare_main \<times> context_t" where
  "updater_fire ev sc =
     (case mUpdater (fst sc) of
        None \<Rightarrow> sc
      | Some u \<Rightarrow>
          fold (\<lambda>r acc. if reg_event r = ev then fold recreate_updatee (reg_updatees r) acc else acc)
            (mRegistrations u) sc)"

text \<open>
  The handler of lines 169-171; the number of removed sets is computed and dropped.
\<close>

fun invoke_handler ::
    "handler \<Rightarrow> image_view \<Rightarrow> 'mat fluid_nightmare_main \<Rightarrow> 'mat fluid_nightmare_main" where
  "invoke_handler Remove_sets_with_handle aImageViewToBeDestroyed st =
     st\<lparr>mDescriptorCache :=
          fst (remove_sets_with_handle (view_handle aImageViewToBeDestroyed) (mDescriptorCache st))\<rparr>"

text \<open>
  Modelled from the spec: deferred destruction (section 3, RenderTarget). A render target
  superseded in frame \<open>f\<close> is destroyed once the frames in flight at \<open>f\<close> have retired,
  that is from frame \<open>f + number_of_frames_in_flight\<close> on.
\<close>

definition retired :: "context_t \<Rightarrow> int64_t \<Rightarrow> bool" where
  "retired ctx f = (f + number_of_frames_in_flight ctx \<le>s current_frame ctx)"

definition destroying_handlers :: "updater \<Rightarrow> handler list" where
  "destroying_handlers u =
     concat (map (\<lambda>r. case reg_then_on r of
                         Some (ev, h) \<Rightarrow> (if ev = Destroying_image_view_event then [h] else [])
                       | None \<Rightarrow> [])
                 (mRegistrations u))"

definition updater_cleanup ::
    "context_t \<Rightarrow> 'mat fluid_nightmare_main \<Rightarrow> 'mat fluid_nightmare_main" where
  "updater_cleanup ctx st =
     (case mUpdater st of
        None \<Rightarrow> st
      | Some u \<Rightarrow>
          (let due = filter (\<lambda>e. retired ctx (fst e)) (mUpdateesToCleanUp u);
               kept = filter (\<lambda>e. \<not> retired ctx (fst e)) (mUpdateesToCleanUp u);
               st1 = fold (\<lambda>e acc. fold (\<lambda>h. invoke_handler h (snd e)) (destroying_handlers u) acc)
                       due st
           in st1\<lparr>mUpdater := Some (u\<lparr>mUpdateesToCleanUp := kept\<rparr>)\<rparr>))"

text \<open>
  Modelled from the spec: the frame loop of the framework (\<^verbatim>\<open>gvk::start\<close>) is not under
  src/. Sections 4.7, 4.8 and 5: between frames the window may be resized or a shader
  file may change, and the updater reacts before the next frame is recorded; in a frame
  superseded resources are cleaned up, then \<^verbatim>\<open>update\<close> and \<^verbatim>\<open>render\<close> run with the
  backbuffer and the semaphore the swap chain hands out; the UI callback of lines 183-197
  leaves a new light direction and field of view in the members, and the framework moves
  the camera.
\<close>

datatype app_event =
    Swapchain_resized nat nat
  | Shader_files_changed
  | Frame input_t handle handle
  | Ui_changed vec3 float_expr
  | Camera_moved mat4 vec3

text \<open>
  Modelled from the spec: the object and the context \<^verbatim>\<open>render\<close> is called with in a
  frame (the framework's loop is not under src/). The swap chain has handed out the
  backbuffer and the semaphore, superseded resources have been cleaned up and
  \<^verbatim>\<open>update\<close> has run.
\<close>

definition frame_state ::
    "input_t \<Rightarrow> handle \<Rightarrow> handle \<Rightarrow> 'mat fluid_nightmare_main \<times> context_t
     \<Rightarrow> 'mat fluid_nightmare_main \<times> context_t" where
  "frame_state inp backbuffer semaphore sc =
     (let ctx1 = (snd sc)\<lparr>current_backbuffer_image := backbuffer,
                           image_available_semaphore := semaphore\<rparr>;
          st1 = updater_cleanup ctx1 (fst sc);
          st2 = fst (update inp ctx1 st1)
      in (st2, ctx1))"

fun app_step ::
    "app_event \<Rightarrow> 'mat fluid_nightmare_main \<times> context_t \<Rightarrow> 'mat fluid_nightmare_main \<times> context_t" where
  "app_step (Swapchain_resized w h) (st, ctx) =
     updater_fire Swapchain_resized_event (st, ctx\<lparr>resolution := (w, h)\<rparr>)"
| "app_step Shader_files_changed (st, ctx) = updater_fire Shader_files_changed_event (st, ctx)"
| "app_step (Frame inp backbuffer semaphore) (st, ctx) =
     (let st2 = fst (frame_state inp backbuffer semaphore (st, ctx));
          ctx1 = snd (frame_state inp backbuffer semaphore (st, ctx));
          st3 = (case render ctx1 st2 of Some r \<Rightarrow> fst r | None \<Rightarrow> st2)
      in (st3, ctx1\<lparr>current_frame := current_frame ctx1 + 1\<rparr>))"
| "app_step (Ui_changed lightDir fov) (st, ctx) =
     (st\<lparr>mLightDir := lightDir, mFieldOfViewForRayTracing := fov\<rparr>, ctx)"
| "app_step (Camera_moved m t) (st, ctx) =
     (st\<lparr>mQuakeCam := (mQuakeCam st)\<lparr>global_transformation_matrix := m,
                                         cam_translation := t\<rparr>\<rparr>, ctx)"

definition run ::
    "app_event list \<Rightarrow> 'mat fluid_nightmare_main \<times> context_t \<Rightarrow> 'mat fluid_nightmare_main \<times> context_t" where
  "run evs sc = fold app_step evs sc"

subsection \<open>Partitions: the terms the properties are stated in\<close>

text \<open>
  A partition is a model together with one entry of its distinct materials (the material
  and the meshes that have it); the partitions of a scene in creation order are those of
  its models, model by model.
\<close>

type_synonym 'mat partition = "'mat model_data \<times> 'mat \<times> nat list"

definition partitions_of :: "'mat model_data \<Rightarrow> 'mat partition list" where
  "partitions_of model =
     map (\<lambda>entry. (model, entry)) (distinct_material_configs (mLoadedModel model))"

definition partitions :: "'mat model_data list \<Rightarrow> 'mat partition list" where
  "partitions models = concat (map partitions_of models)"

definition partition_material :: "'mat partition \<Rightarrow> 'mat" where
  "partition_material p = fst (snd p)"

definition partition_selection :: "'mat partition \<Rightarrow> 'mat selection" where
  "partition_selection p = (mLoadedModel (fst p), snd (snd p))"

definition partition_blas :: "'mat partition \<Rightarrow> 'mat bottom_level_acceleration_structure" where
  "partition_blas p =
     \<lparr>blas_size_requirements =
        [(Positions_buffer (partition_selection p), Index_buffer (partition_selection p))],
      blas_allow_updates = False,
      blas_built_from =
        Some [(Positions_buffer (partition_selection p), Index_buffer (partition_selection p))]\<rparr>"

text \<open>The instance placed for partition number \<open>i\<close> and one instance entry of its model.\<close>

definition instance_of ::
    "nat \<Rightarrow> 'mat partition \<Rightarrow> model_instance_data \<Rightarrow> 'mat geometry_instance" where
  "instance_of i p inst =
     \<lparr>mAccelerationStructure = partition_blas p,
      mTransform = Matrix_from_transforms (mTranslation inst) (mRotation inst) (mScaling inst),
      mInstanceCustomIndex = of_nat i\<rparr>"

definition instances_of :: "nat \<times> 'mat partition \<Rightarrow> 'mat geometry_instance list" where
  "instances_of ip = map (instance_of (fst ip) (snd ip)) (mInstances (fst (snd ip)))"

definition custom_indices :: "'mat fluid_nightmare_main \<Rightarrow> nat list" where
  "custom_indices st = map (\<lambda>g. unat (mInstanceCustomIndex g)) (mGeometryInstances st)"

text \<open>The object and the context after construction and \<^verbatim>\<open>initialize\<close> on a scene.\<close>

definition started ::
    "'mat model_data list \<Rightarrow> context_t \<Rightarrow> handle \<Rightarrow> quake_camera
     \<Rightarrow> 'mat fluid_nightmare_main \<times> context_t" where
  "started orca ctx aQueue cam = initialize orca ctx (constructed aQueue cam)"

subsection \<open>Further terms of the properties, and example scenes\<close>

text \<open>
  The number of placed instances of a partition's model, and the list in which partition
  number \<open>k\<close>, \<open>k + 1\<close>, ... each occurs once per placed instance.
\<close>

definition placements :: "'mat partition \<Rightarrow> nat" where
  "placements p = length (mInstances (fst p))"

definition indices_by_partition :: "nat \<Rightarrow> 'mat partition list \<Rightarrow> nat list" where
  "indices_by_partition k ps =
     concat (map (\<lambda>ip. replicate (placements (snd ip)) (fst ip)) (enumerate k ps))"

text \<open>
  Whether a custom index lies in the range \<open>[start, end)\<close> of an entry of
  \<^verbatim>\<open>mBlasNamesAndRanges\<close>; the bounds are C++ ints.
\<close>

definition in_recorded_range :: "string \<times> int_t \<times> int_t \<Rightarrow> uint32_t \<Rightarrow> bool" where
  "in_recorded_range r c = (sint (fst (snd r)) \<le> uint c \<and> uint c < sint (snd (snd r)))"

text \<open>
  The render targets (storage images) a list of bindings refers to; those of the pipeline,
  those of the cached descriptor sets, and the superseded render targets that still await
  their deferred destruction.
\<close>

definition storage_views :: "'mat binding_data list \<Rightarrow> image_view list" where
  "storage_views bs =
     concat (map (\<lambda>b. case mResource b of Bound_storage_image v \<Rightarrow> [v] | _ \<Rightarrow> []) bs)"

definition pipeline_targets :: "'mat fluid_nightmare_main \<Rightarrow> image_view list" where
  "pipeline_targets st =
     (case mPipeline st of Some p \<Rightarrow> storage_views (mResourceBindings p) | None \<Rightarrow> [])"

definition cached_targets :: "'mat fluid_nightmare_main \<Rightarrow> image_view list" where
  "cached_targets st = concat (map storage_views (mDescriptorCache st))"

definition superseded :: "'mat fluid_nightmare_main \<Rightarrow> image_view list" where
  "superseded st =
     (case mUpdater st of Some u \<Rightarrow> map snd (mUpdateesToCleanUp u) | None \<Rightarrow> [])"

text \<open>
  What holds of the object between events once \<^verbatim>\<open>initialize\<close> has run: the resources
  \<^verbatim>\<open>render\<close> dereferences exist, the updater has the two registrations, the render target
  has the window's dimensions and is the one the pipeline's binding refers to, cached
  descriptor sets refer to it or to a superseded target not yet destroyed, and the handles
  of all these image views were handed out earlier, the current one to no superseded view.
\<close>

definition consistent :: "'mat fluid_nightmare_main \<times> context_t \<Rightarrow> bool" where
  "consistent sc =
     (case (mPipeline (fst sc), mMaterialBuffer (fst sc), mOffscreenImageView (fst sc),
            mTlas (fst sc), mUpdater (fst sc)) of
        (Some p, Some mb, Some v, Some t, Some u) \<Rightarrow>
          mRegistrations u = updater_registrations
          \<and> (image_width (view_image v), image_height (view_image v)) = resolution (snd sc)
          \<and> mPushConstants p =
              \<lparr>mShaderStages = {Ray_generation, Closest_hit}, mOffset = 0,
               mSize = sizeof_push_const_data\<rparr>
          \<and> storage_views (mResourceBindings p) = [v]
          \<and> set (cached_targets (fst sc)) \<subseteq> insert v (set (superseded (fst sc)))
          \<and> view_handle v < next_handle (snd sc)
          \<and> list_all (\<lambda>old. view_handle old < next_handle (snd sc)
                                \<and> view_handle old \<noteq> view_handle v) (superseded (fst sc))
      | _ \<Rightarrow> False)"

text \<open>
  The bindings and the push constants \<^verbatim>\<open>render\<close> writes, as terms of the object, and
  the render target a resize creates.
\<close>

definition bound_resources ::
    "'mat fluid_nightmare_main \<Rightarrow> 'mat storage_buffer \<Rightarrow> image_view
     \<Rightarrow> 'mat top_level_acceleration_structure \<Rightarrow> 'mat binding_data list" where
  "bound_resources st mb v t =
     [descriptor_binding 0 0 (Bound_image_samplers (mImageSamplers st)),
      descriptor_binding 0 1 (Bound_buffer mb),
      descriptor_binding 0 2 (Bound_uniform_texel_buffer_views (mIndexBufferViews st)),
      descriptor_binding 0 3 (Bound_uniform_texel_buffer_views (mTexCoordsBufferViews st)),
      descriptor_binding 0 4 (Bound_uniform_texel_buffer_views (mNormalsBufferViews st)),
      descriptor_binding 1 0 (Bound_storage_image v),
      descriptor_binding 2 0 (Bound_tlas t)]"

definition push_constants_of :: "'mat fluid_nightmare_main \<Rightarrow> push_const_data" where
  "push_constants_of st =
     [Mat4_member (global_transformation_matrix (mQuakeCam st)),
      Float_member (Fmul (Radians (mFieldOfViewForRayTracing st)) (Float_lit 5 1)),
      Float_member (Float_lit 0 0), Float_member (Float_lit 0 0), Float_member (Float_lit 0 0),
      Vec4_member (fst (mLightDir st), fst (snd (mLightDir st)), snd (snd (mLightDir st)),
                   Float_lit 0 1)]"

definition resized_view :: "nat \<Rightarrow> nat \<Rightarrow> image_view \<Rightarrow> context_t \<Rightarrow> image_view" where
  "resized_view w h old ctx =
     \<lparr>view_handle = next_handle ctx,
      view_image = \<lparr>image_width = w, image_height = h,
                    image_format = image_format (view_image old),
                    image_num_layers = image_num_layers (view_image old),
                    image_layout_transitioned = True\<rparr>\<rparr>"

text \<open>Whether every superseded render target has retired in a given context.\<close>

definition all_retired :: "context_t \<Rightarrow> 'mat fluid_nightmare_main \<Rightarrow> bool" where
  "all_retired ctx st =
     (case mUpdater st of
        Some u \<Rightarrow> list_all (\<lambda>e. retired ctx (fst e)) (mUpdateesToCleanUp u)
      | None \<Rightarrow> True)"

text \<open>
  The superseded render targets that await destruction, each with the frame it was
  superseded in.
\<close>

definition awaiting :: "'mat fluid_nightmare_main \<Rightarrow> (int64_t \<times> image_view) list" where
  "awaiting st = (case mUpdater st of Some u \<Rightarrow> mUpdateesToCleanUp u | None \<Rightarrow> [])"

text \<open>
  Terms for the update window of \<^verbatim>\<open>update\<close>: whether a directional key is down (the
  condition of line 205); whether a step changed the top-level structure or the instance
  data it is built from, as the update of the commented lines 226-243 would; and, for a
  run of frames with the given inputs, whether each frame passes the guard of line 209.
\<close>

definition directional :: "input_t \<Rightarrow> bool" where
  "directional inp =
     (Key_left \<in> key_down inp \<or> Key_right \<in> key_down inp \<or> Key_page_down \<in> key_down inp
      \<or> Key_page_up \<in> key_down inp \<or> Key_up \<in> key_down inp \<or> Key_down \<in> key_down inp)"

definition tlas_update_issued ::
    "'mat fluid_nightmare_main \<Rightarrow> 'mat fluid_nightmare_main \<Rightarrow> bool" where
  "tlas_update_issued st st' =
     (\<not> (mTlas st' = mTlas st \<and> mGeometryInstances st' = mGeometryInstances st))"

fun gate_trace :: "input_t list \<Rightarrow> context_t \<Rightarrow> 'mat fluid_nightmare_main \<Rightarrow> bool list" where
  "gate_trace [] ctx st = []"
| "gate_trace (inp # inps) ctx st =
     in_update_window ctx (directional_keys inp st ctx)
       # gate_trace inps (ctx\<lparr>current_frame := current_frame ctx + 1\<rparr>) (fst (update inp ctx st))"

text \<open>Inputs with no key, and with the left arrow key down.\<close>

definition idle_input :: input_t where
  "idle_input = \<lparr>key_down = {}, key_pressed = {}\<rparr>"

definition left_input :: input_t where
  "left_input = \<lparr>key_down = {Key_left}, key_pressed = {}\<rparr>"

text \<open>
  Example scenes. \<open>example_scene\<close> is the scenario of section 8 of the specification:
  model A with three distinct materials and two placed instances, model B with one
  material and one placed instance.
\<close>

definition example_instance :: "int \<Rightarrow> model_instance_data" where
  "example_instance x =
     \<lparr>mTranslation = (Float_lit x 0, Float_lit 0 0, Float_lit 0 0),
      mScaling = (Float_lit 1 0, Float_lit 1 0, Float_lit 1 0),
      mRotation = (Float_lit 0 0, Float_lit 0 0, Float_lit 0 0)\<rparr>"

definition example_scene :: "string model_data list" where
  "example_scene =
     [\<lparr>mName = ''A'',
       mLoadedModel = \<lparr>distinct_material_configs =
         [(''stone'', [0, 3]), (''cloth'', [1]), (''metal'', [2])]\<rparr>,
       mInstances = [example_instance 0, example_instance 5]\<rparr>,
      \<lparr>mName = ''B'',
       mLoadedModel = \<lparr>distinct_material_configs = [(''grass'', [0])]\<rparr>,
       mInstances = [example_instance 9]\<rparr>]"

definition small_scene :: "string model_data list" where
  "small_scene =
     [\<lparr>mName = ''A'',
       mLoadedModel = \<lparr>distinct_material_configs = [(''stone'', [0])]\<rparr>,
       mInstances = [example_instance 0, example_instance 5]\<rparr>,
      \<lparr>mName = ''B'',
       mLoadedModel = \<lparr>distinct_material_configs = [(''grass'', [0])]\<rparr>,
       mInstances = [example_instance 9]\<rparr>]"

definition example_context :: context_t where
  "example_context =
     \<lparr>resolution = (1920, 1080), color_buffer_format = 50, aspect_ratio = Float_lit 16 0,
      current_frame = 0, number_of_frames_in_flight = 3, max_ray_tracing_recursion_depth = 31,
      current_backbuffer_image = 100, image_available_semaphore = 200,
      has_imgui_manager = True, next_handle = 1000\<rparr>"

definition example_camera :: quake_camera where
  "example_camera =
     \<lparr>cam_translation = (Float_lit 0 0, Float_lit 0 0, Float_lit 0 0), cam_projection = None,
      cam_enabled = True, global_transformation_matrix = replicate 16 (Float_lit 0 0)\<rparr>"


definition single_scene :: "string model_data list" where
  "single_scene =
     [\<lparr>mName = ''A'',
       mLoadedModel = \<lparr>distinct_material_configs = [(''stone'', [0]), (''cloth'', [1])]\<rparr>,
       mInstances = [example_instance 0]\<rparr>,
      \<lparr>mName = ''B'',
       mLoadedModel = \<lparr>distinct_material_configs = [(''grass'', [0])]\<rparr>,
       mInstances = [example_instance 9]\<rparr>]"

section \<open>The scene loader in closed form\<close>

lemma instance_body_fields [simp]:
  "mGeometryInstances (instance_body blas inst st) = mGeometryInstances st @
     [\<lparr>mAccelerationStructure = blas,
       mTransform = Matrix_from_transforms (mTranslation inst) (mRotation inst) (mScaling inst),
       mInstanceCustomIndex = of_nat (length (mTexCoordsBufferViews st))\<rparr>]"
  "mTexCoordsBufferViews (instance_body blas inst st) = mTexCoordsBufferViews st"
  "mBlas (instance_body blas inst st) = mBlas st"
  "mPositionsBufferViews (instance_body blas inst st) = mPositionsBufferViews st"
  "mIndexBufferViews (instance_body blas inst st) = mIndexBufferViews st"
  "mNormalsBufferViews (instance_body blas inst st) = mNormalsBufferViews st"
  "mBlasNamesAndRanges (instance_body blas inst st) = mBlasNamesAndRanges st"
  by (simp_all add: instance_body_def Let_def set_custom_index_def
      set_transform_column_major_def create_geometry_instance_def)

lemma instance_loop_others [simp]:
  "mTexCoordsBufferViews (fold (instance_body blas) insts st) = mTexCoordsBufferViews st"
  "mBlas (fold (instance_body blas) insts st) = mBlas st"
  "mPositionsBufferViews (fold (instance_body blas) insts st) = mPositionsBufferViews st"
  "mIndexBufferViews (fold (instance_body blas) insts st) = mIndexBufferViews st"
  "mNormalsBufferViews (fold (instance_body blas) insts st) = mNormalsBufferViews st"
  "mBlasNamesAndRanges (fold (instance_body blas) insts st) = mBlasNamesAndRanges st"
  by (induction insts arbitrary: st; simp)+

lemma instance_loop_instances:
  "mGeometryInstances (fold (instance_body blas) insts st) = mGeometryInstances st @
     map (\<lambda>inst. \<lparr>mAccelerationStructure = blas,
       mTransform = Matrix_from_transforms (mTranslation inst) (mRotation inst) (mScaling inst),
       mInstanceCustomIndex = of_nat (length (mTexCoordsBufferViews st))\<rparr>) insts"
  by (induction insts arbitrary: st) simp_all

lemma material_body_instances:
  "mGeometryInstances (fst (material_body model entry acc)) =
     mGeometryInstances (fst acc) @ instances_of (length (mTexCoordsBufferViews (fst acc)), (model, entry))"
  by (simp add: material_body_def Let_def instance_loop_instances instances_of_def instance_of_def
      partition_blas_def partition_selection_def make_models_and_meshes_selection_def
      create_vertex_and_index_buffers_def blas_build_def create_bottom_level_acceleration_structure_def)

lemma material_body_fields [simp]:
  "mTexCoordsBufferViews (fst (material_body model entry acc)) = mTexCoordsBufferViews (fst acc) @
     [Buffer_view (Tex_coords_buffer (partition_selection (model, entry)))]"
  "mNormalsBufferViews (fst (material_body model entry acc)) = mNormalsBufferViews (fst acc) @
     [Buffer_view (Normals_buffer (partition_selection (model, entry)))]"
  "mIndexBufferViews (fst (material_body model entry acc)) = mIndexBufferViews (fst acc) @
     [Buffer_view (Index_buffer (partition_selection (model, entry)))]"
  "mPositionsBufferViews (fst (material_body model entry acc)) = mPositionsBufferViews (fst acc) @
     [Buffer_view (Positions_buffer (partition_selection (model, entry)))]"
  "mBlas (fst (material_body model entry acc)) = mBlas (fst acc) @ [partition_blas (model, entry)]"
  "snd (material_body model entry acc) = snd acc @ [fst entry]"
  "mBlasNamesAndRanges (fst (material_body model entry acc)) = mBlasNamesAndRanges (fst acc)"
  by (simp_all add: material_body_def Let_def partition_blas_def partition_selection_def
      make_models_and_meshes_selection_def create_buffer_view_def create_normals_buffer_def
      create_2d_texture_coordinates_buffer_def
      create_vertex_and_index_buffers_def blas_build_def create_bottom_level_acceleration_structure_def)

lemma material_loop_fields [simp]:
  "mTexCoordsBufferViews (fst (fold (material_body model) es acc)) = mTexCoordsBufferViews (fst acc) @
     map (\<lambda>e. Buffer_view (Tex_coords_buffer (partition_selection (model, e)))) es"
  "mNormalsBufferViews (fst (fold (material_body model) es acc)) = mNormalsBufferViews (fst acc) @
     map (\<lambda>e. Buffer_view (Normals_buffer (partition_selection (model, e)))) es"
  "mIndexBufferViews (fst (fold (material_body model) es acc)) = mIndexBufferViews (fst acc) @
     map (\<lambda>e. Buffer_view (Index_buffer (partition_selection (model, e)))) es"
  "mPositionsBufferViews (fst (fold (material_body model) es acc)) = mPositionsBufferViews (fst acc) @
     map (\<lambda>e. Buffer_view (Positions_buffer (partition_selection (model, e)))) es"
  "mBlas (fst (fold (material_body model) es acc)) = mBlas (fst acc) @ map (\<lambda>e. partition_blas (model, e)) es"
  "snd (fold (material_body model) es acc) = snd acc @ map fst es"
  "mBlasNamesAndRanges (fst (fold (material_body model) es acc)) = mBlasNamesAndRanges (fst acc)"
  by (induction es arbitrary: acc; simp)+

lemma material_loop_instances:
  "mGeometryInstances (fst (fold (material_body model) es acc)) =
     mGeometryInstances (fst acc) @
     concat (map instances_of (enumerate (length (mTexCoordsBufferViews (fst acc))) (map (\<lambda>e. (model, e)) es)))"
  by (induction es arbitrary: acc) (simp_all add: material_body_instances)


lemma model_body_fields [simp]:
  "mTexCoordsBufferViews (fst (model_body model acc)) = mTexCoordsBufferViews (fst acc) @
     map (\<lambda>p. Buffer_view (Tex_coords_buffer (partition_selection p))) (partitions_of model)"
  "mNormalsBufferViews (fst (model_body model acc)) = mNormalsBufferViews (fst acc) @
     map (\<lambda>p. Buffer_view (Normals_buffer (partition_selection p))) (partitions_of model)"
  "mIndexBufferViews (fst (model_body model acc)) = mIndexBufferViews (fst acc) @
     map (\<lambda>p. Buffer_view (Index_buffer (partition_selection p))) (partitions_of model)"
  "mPositionsBufferViews (fst (model_body model acc)) = mPositionsBufferViews (fst acc) @
     map (\<lambda>p. Buffer_view (Positions_buffer (partition_selection p))) (partitions_of model)"
  "mBlas (fst (model_body model acc)) = mBlas (fst acc) @ map partition_blas (partitions_of model)"
  "snd (model_body model acc) = snd acc @ map (\<lambda>p. fst (snd p)) (partitions_of model)"
  by (simp_all add: model_body_def Let_def partitions_of_def o_def)

lemma model_body_instances:
  "mGeometryInstances (fst (model_body model acc)) =
     mGeometryInstances (fst acc) @
     concat (map instances_of (enumerate (length (mTexCoordsBufferViews (fst acc))) (partitions_of model)))"
  by (simp add: model_body_def Let_def material_loop_instances partitions_of_def)

lemma model_body_ranges:
  "mBlasNamesAndRanges (fst (model_body model acc)) =
     mBlasNamesAndRanges (fst acc) @
       [(mName model, of_nat (length (mGeometryInstances (fst acc))),
         of_nat (length (mGeometryInstances (fst (model_body model acc)))))]"
  by (simp add: model_body_def Let_def)

lemma model_loop_fields:
  "mTexCoordsBufferViews (fst (fold model_body models acc)) = mTexCoordsBufferViews (fst acc) @
     map (\<lambda>p. Buffer_view (Tex_coords_buffer (partition_selection p))) (partitions models)"
  "mNormalsBufferViews (fst (fold model_body models acc)) = mNormalsBufferViews (fst acc) @
     map (\<lambda>p. Buffer_view (Normals_buffer (partition_selection p))) (partitions models)"
  "mIndexBufferViews (fst (fold model_body models acc)) = mIndexBufferViews (fst acc) @
     map (\<lambda>p. Buffer_view (Index_buffer (partition_selection p))) (partitions models)"
  "mPositionsBufferViews (fst (fold model_body models acc)) = mPositionsBufferViews (fst acc) @
     map (\<lambda>p. Buffer_view (Positions_buffer (partition_selection p))) (partitions models)"
  "mBlas (fst (fold model_body models acc)) = mBlas (fst acc) @ map partition_blas (partitions models)"
  "snd (fold model_body models acc) = snd acc @ map (\<lambda>p. fst (snd p)) (partitions models)"
  by (induction models arbitrary: acc; simp add: partitions_def)+

lemma model_loop_instances:
  "mGeometryInstances (fst (fold model_body models acc)) =
     mGeometryInstances (fst acc) @
     concat (map instances_of (enumerate (length (mTexCoordsBufferViews (fst acc))) (partitions models)))"
proof (induction models arbitrary: acc)
  case Nil
  show ?case by (simp add: partitions_def)
next
  case (Cons m ms)
  have "partitions (m # ms) = partitions_of m @ partitions ms"
    by (simp add: partitions_def)
  then show ?case
    by (simp add: Cons.IH model_body_instances enumerate_append_eq add.commute)
qed


lemma load_models_fields:
  "mTexCoordsBufferViews (fst (load_models models st)) = mTexCoordsBufferViews st @
     map (\<lambda>p. Buffer_view (Tex_coords_buffer (partition_selection p))) (partitions models)"
  "mNormalsBufferViews (fst (load_models models st)) = mNormalsBufferViews st @
     map (\<lambda>p. Buffer_view (Normals_buffer (partition_selection p))) (partitions models)"
  "mIndexBufferViews (fst (load_models models st)) = mIndexBufferViews st @
     map (\<lambda>p. Buffer_view (Index_buffer (partition_selection p))) (partitions models)"
  "mPositionsBufferViews (fst (load_models models st)) = mPositionsBufferViews st @
     map (\<lambda>p. Buffer_view (Positions_buffer (partition_selection p))) (partitions models)"
  "mBlas (fst (load_models models st)) = mBlas st @ map partition_blas (partitions models)"
  "snd (load_models models st) = map partition_material (partitions models)"
  "mGeometryInstances (fst (load_models models st)) = mGeometryInstances st @
     concat (map instances_of (enumerate (length (mTexCoordsBufferViews st)) (partitions models)))"
  by (simp_all add: load_models_def model_loop_fields model_loop_instances partition_material_def)

lemma load_scene_fields:
  "mTexCoordsBufferViews (fst (load_scene orca (constructed aQueue cam))) =
     map (\<lambda>p. Buffer_view (Tex_coords_buffer (partition_selection p))) (partitions orca)"
  "mNormalsBufferViews (fst (load_scene orca (constructed aQueue cam))) =
     map (\<lambda>p. Buffer_view (Normals_buffer (partition_selection p))) (partitions orca)"
  "mIndexBufferViews (fst (load_scene orca (constructed aQueue cam))) =
     map (\<lambda>p. Buffer_view (Index_buffer (partition_selection p))) (partitions orca)"
  "mPositionsBufferViews (fst (load_scene orca (constructed aQueue cam))) =
     map (\<lambda>p. Buffer_view (Positions_buffer (partition_selection p))) (partitions orca)"
  "mBlas (fst (load_scene orca (constructed aQueue cam))) = map partition_blas (partitions orca)"
  "snd (load_scene orca (constructed aQueue cam)) = map partition_material (partitions orca)"
  "mGeometryInstances (fst (load_scene orca (constructed aQueue cam))) =
     concat (map instances_of (enumerate 0 (partitions orca)))"
  by (simp_all add: load_scene_def Let_def load_models_fields constructed_def)

lemma initialize_scene_members:
  "mTexCoordsBufferViews (fst (initialize orca ctx st)) = mTexCoordsBufferViews (fst (load_scene orca st))"
  "mNormalsBufferViews (fst (initialize orca ctx st)) = mNormalsBufferViews (fst (load_scene orca st))"
  "mIndexBufferViews (fst (initialize orca ctx st)) = mIndexBufferViews (fst (load_scene orca st))"
  "mPositionsBufferViews (fst (initialize orca ctx st)) = mPositionsBufferViews (fst (load_scene orca st))"
  "mBlas (fst (initialize orca ctx st)) = mBlas (fst (load_scene orca st))"
  "mGeometryInstances (fst (initialize orca ctx st)) = mGeometryInstances (fst (load_scene orca st))"
  "mBlasNamesAndRanges (fst (initialize orca ctx st)) = mBlasNamesAndRanges (fst (load_scene orca st))"
  by (simp_all add: initialize_def Let_def)

lemma started_scene:
  "mTexCoordsBufferViews (fst (started orca ctx aQueue cam)) =
     map (\<lambda>p. Buffer_view (Tex_coords_buffer (partition_selection p))) (partitions orca)"
  "mNormalsBufferViews (fst (started orca ctx aQueue cam)) =
     map (\<lambda>p. Buffer_view (Normals_buffer (partition_selection p))) (partitions orca)"
  "mIndexBufferViews (fst (started orca ctx aQueue cam)) =
     map (\<lambda>p. Buffer_view (Index_buffer (partition_selection p))) (partitions orca)"
  "mPositionsBufferViews (fst (started orca ctx aQueue cam)) =
     map (\<lambda>p. Buffer_view (Positions_buffer (partition_selection p))) (partitions orca)"
  "mBlas (fst (started orca ctx aQueue cam)) = map partition_blas (partitions orca)"
  "mGeometryInstances (fst (started orca ctx aQueue cam)) =
     concat (map instances_of (enumerate 0 (partitions orca)))"
  by (simp_all add: started_def initialize_scene_members load_scene_fields)

lemma started_material_buffer:
  "mMaterialBuffer (fst (started orca ctx aQueue cam)) =
     Some \<lparr>sb_num_elements = length (partitions orca),
           sb_content = map (\<lambda>p. Material_gpu_data (partition_material p) True True) (partitions orca)\<rparr>"
  by (simp add: started_def initialize_def Let_def load_scene_fields convert_for_gpu_usage_def
      buffer_fill_def create_buffer_from_data_def o_def)

lemma started_tlas:
  "mTlas (fst (started orca ctx aQueue cam)) =
     Some \<lparr>tlas_instance_count = length (mGeometryInstances (fst (started orca ctx aQueue cam))),
           tlas_allow_updates = True,
           tlas_built_from = Some (mGeometryInstances (fst (started orca ctx aQueue cam)))\<rparr>"
  by (simp add: started_def initialize_def Let_def tlas_build_def
      create_top_level_acceleration_structure_def)

lemma in_instances_of:
  "g \<in> set (instances_of (i, p)) \<Longrightarrow>
     mInstanceCustomIndex g = of_nat i \<and> mAccelerationStructure g = partition_blas p"
  by (auto simp: instances_of_def instance_of_def)

lemma set_enumerate_image:
  "set (enumerate k ps) = (\<lambda>i. (k + i, ps ! i)) ` {..<length ps}"
proof (rule set_eqI)
  fix x :: "nat \<times> 'a"
  show "x \<in> set (enumerate k ps) \<longleftrightarrow> x \<in> (\<lambda>i. (k + i, ps ! i)) ` {..<length ps}"
  proof
    assume "x \<in> set (enumerate k ps)"
    then have *: "k \<le> fst x" "fst x < length ps + k" "ps ! (fst x - k) = snd x"
      by (simp_all add: in_set_enumerate_eq)
    then have "x = (k + (fst x - k), ps ! (fst x - k))" "fst x - k < length ps"
      by (auto simp: prod_eq_iff)
    then show "x \<in> (\<lambda>i. (k + i, ps ! i)) ` {..<length ps}"
      by blast
  next
    assume "x \<in> (\<lambda>i. (k + i, ps ! i)) ` {..<length ps}"
    then show "x \<in> set (enumerate k ps)"
      by (auto simp: in_set_enumerate_eq)
  qed
qed

lemma in_concat_instances:
  "g \<in> set (concat (map instances_of (enumerate k ps))) \<longleftrightarrow>
     (\<exists>i<length ps. g \<in> set (instances_of (k + i, ps ! i)))"
  by (simp add: set_enumerate_image Bex_def)


lemma unat_of_nat_32: "n < 2 ^ 32 \<Longrightarrow> unat (of_nat n :: 32 word) = n"
  by (simp add: unat_of_nat)

lemma custom_of_instances:
  "k + length ps \<le> 2 ^ 32 \<Longrightarrow>
     map (\<lambda>g. unat (mInstanceCustomIndex g)) (concat (map instances_of (enumerate k ps))) =
     indices_by_partition k ps"
proof (induction ps arbitrary: k)
  case Nil
  show ?case by (simp add: indices_by_partition_def)
next
  case (Cons p ps)
  from Cons.prems have k: "k < 2 ^ 32" and rest: "Suc k + length ps \<le> 2 ^ 32"
    by simp_all
  have here: "map (\<lambda>g. unat (mInstanceCustomIndex g)) (instances_of (k, p)) =
      replicate (placements p) k"
    by (simp add: instances_of_def instance_of_def placements_def o_def unat_of_nat_32 [OF k]
        map_replicate_const)
  show ?case
    using Cons.IH [OF rest] here by (simp add: indices_by_partition_def)
qed

lemma indices_by_partition_bounds:
  "x \<in> set (indices_by_partition k ps) \<Longrightarrow> k \<le> x \<and> x < k + length ps"
proof (induction ps arbitrary: k)
  case Nil
  then show ?case by (simp add: indices_by_partition_def)
next
  case (Cons p ps)
  from Cons.prems have "x = k \<or> x \<in> set (indices_by_partition (Suc k) ps)"
    by (auto simp: indices_by_partition_def)
  then show ?case
    using Cons.IH [of "Suc k"] by auto
qed

lemma sorted_indices_by_partition: "sorted (indices_by_partition k ps)"
proof (induction ps arbitrary: k)
  case Nil
  show ?case by (simp add: indices_by_partition_def)
next
  case (Cons p ps)
  have split: "indices_by_partition k (p # ps) =
      replicate (placements p) k @ indices_by_partition (Suc k) ps"
    by (simp add: indices_by_partition_def)
  have "\<forall>x\<in>set (indices_by_partition (Suc k) ps). k \<le> x"
    using indices_by_partition_bounds [of _ "Suc k" ps] by (meson Suc_leD)
  then show ?case
    unfolding split using Cons.IH [of "Suc k"]
    by (auto simp: sorted_append)
qed

lemma indices_by_partition_single:
  "\<forall>p\<in>set ps. placements p = 1 \<Longrightarrow> indices_by_partition k ps = [k..<k + length ps]"
proof (induction ps arbitrary: k)
  case Nil
  show ?case by (simp add: indices_by_partition_def)
next
  case (Cons p ps)
  have "indices_by_partition k (p # ps) = k # indices_by_partition (Suc k) ps"
    using Cons.prems by (simp add: indices_by_partition_def)
  moreover have "indices_by_partition (Suc k) ps = [Suc k..<Suc k + length ps]"
    using Cons.IH [of "Suc k"] Cons.prems by simp
  moreover have "[k..<Suc (k + length ps)] = k # [Suc k..<Suc (k + length ps)]"
    by (rule upt_conv_Cons) simp
  ultimately show ?case
    by (simp only: list.size add_Suc add_Suc_right add_0_right)
qed

lemma length_indices_by_partition:
  "length (indices_by_partition k ps) = sum_list (map placements ps)"
  by (induction ps arbitrary: k) (simp_all add: indices_by_partition_def)

lemma length_instances:
  "length (concat (map instances_of (enumerate k ps))) = sum_list (map placements ps)"
  by (induction ps arbitrary: k) (simp_all add: instances_of_def placements_def)

lemma placements_partitions_of:
  "sum_list (map placements (partitions_of m)) =
     length (distinct_material_configs (mLoadedModel m)) * length (mInstances m)"
  by (simp add: partitions_of_def placements_def o_def sum_list_triv)

lemma placements_partitions:
  "sum_list (map placements (partitions orca)) =
     (\<Sum>m\<leftarrow>orca. length (distinct_material_configs (mLoadedModel m)) * length (mInstances m))"
  by (induction orca) (simp_all add: partitions_def placements_partitions_of)

lemma length_partitions:
  "length (partitions orca) = (\<Sum>m\<leftarrow>orca. length (distinct_material_configs (mLoadedModel m)))"
  by (induction orca) (simp_all add: partitions_def partitions_of_def)

lemma partition_model: "p \<in> set (partitions orca) \<Longrightarrow> fst p \<in> set orca"
  by (auto simp: partitions_def partitions_of_def)

section \<open>What holds between events\<close>

lemma instance_loop_keeps:
  "mDescriptorCache (fold (instance_body blas) insts st) = mDescriptorCache st"
  "mQueue (fold (instance_body blas) insts st) = mQueue st"
  by (induction insts arbitrary: st; simp add: instance_body_def Let_def)+

lemma material_loop_keeps:
  "mDescriptorCache (fst (fold (material_body model) es acc)) = mDescriptorCache (fst acc)"
  "mQueue (fst (fold (material_body model) es acc)) = mQueue (fst acc)"
  by (induction es arbitrary: acc; simp add: material_body_def Let_def instance_loop_keeps)+

lemma model_loop_keeps:
  "mDescriptorCache (fst (fold model_body models acc)) = mDescriptorCache (fst acc)"
  "mQueue (fst (fold model_body models acc)) = mQueue (fst acc)"
  by (induction models arbitrary: acc; simp add: model_body_def Let_def material_loop_keeps)+

lemma load_scene_keeps:
  "mDescriptorCache (fst (load_scene orca st)) = []"
  "mQueue (fst (load_scene orca st)) = mQueue st"
  by (simp_all add: load_scene_def load_models_def model_loop_keeps)

lemma storage_views_simps [simp]:
  "storage_views [] = []"
  "storage_views (b # bs) =
     (case mResource b of Bound_storage_image v \<Rightarrow> [v] | _ \<Rightarrow> []) @ storage_views bs"
  "storage_views (bs @ cs) = storage_views bs @ storage_views cs"
  by (simp_all add: storage_views_def)

lemma consistent_started: "consistent (started orca ctx aQueue cam)"
  by (simp add: consistent_def started_def initialize_def Let_def load_scene_keeps
      create_image_view_def create_ray_tracing_pipeline_for_def descriptor_binding_def
      transition_to_layout_def create_image_def cached_targets_def superseded_def)


lemma consistent_iff:
  "consistent (st, ctx) \<longleftrightarrow>
     (\<exists>p mb v t u. mPipeline st = Some p \<and> mMaterialBuffer st = Some mb
        \<and> mOffscreenImageView st = Some v \<and> mTlas st = Some t \<and> mUpdater st = Some u
        \<and> mRegistrations u = updater_registrations
        \<and> (image_width (view_image v), image_height (view_image v)) = resolution ctx
        \<and> mPushConstants p =
              \<lparr>mShaderStages = {Ray_generation, Closest_hit}, mOffset = 0,
               mSize = sizeof_push_const_data\<rparr>
        \<and> storage_views (mResourceBindings p) = [v]
        \<and> set (cached_targets st) \<subseteq> insert v (set (superseded st))
        \<and> view_handle v < next_handle ctx
        \<and> list_all (\<lambda>old. view_handle old < next_handle ctx
                              \<and> view_handle old \<noteq> view_handle v) (superseded st))"
  by (auto simp: consistent_def split: option.splits)

lemma rebind_views:
  "mOffscreenImageView st = Some v \<Longrightarrow>
     storage_views (map (rebind st) bs) = map (\<lambda>_. v) (storage_views bs)"
  by (induction bs) (auto simp: rebind_def split: resource.splits)

lemma resize_step:
  assumes "mPipeline st = Some p" "mOffscreenImageView st = Some v" "mUpdater st = Some u"
    "mRegistrations u = updater_registrations"
  shows "app_step (Swapchain_resized w h) (st, ctx) =
    (st\<lparr>mOffscreenImageView := Some (resized_view w h v ctx),
        mUpdater := Some (u\<lparr>mUpdateesToCleanUp := mUpdateesToCleanUp u @ [(current_frame ctx, v)]\<rparr>),
        mPipeline := Some (p\<lparr>pipeline_handle := Suc (next_handle ctx),
          mResourceBindings :=
            map (rebind (st\<lparr>mOffscreenImageView := Some (resized_view w h v ctx)\<rparr>))
              (mResourceBindings p)\<rparr>)\<rparr>,
     ctx\<lparr>resolution := (w, h), next_handle := Suc (Suc (next_handle ctx))\<rparr>)"
proof -
  have same: "rebind (st\<lparr>mOffscreenImageView := Some nv, mUpdater := x\<rparr>) =
      rebind (st\<lparr>mOffscreenImageView := Some nv\<rparr>)" for nv x
    by (rule ext) (simp add: rebind_def split: resource.split)
  show ?thesis
    using assms
    by (simp add: updater_fire_def updater_registrations_def Let_def create_image_view_def
        transition_to_layout_def create_image_def resized_view_def same)
qed

lemma shader_step:
  assumes "mPipeline st = Some p" "mUpdater st = Some u"
    "mRegistrations u = updater_registrations"
  shows "app_step Shader_files_changed (st, ctx) =
    (st\<lparr>mPipeline := Some (p\<lparr>pipeline_handle := next_handle ctx,
          mResourceBindings := map (rebind st) (mResourceBindings p)\<rparr>)\<rparr>,
     ctx\<lparr>next_handle := Suc (next_handle ctx)\<rparr>)"
  using assms by (simp add: updater_fire_def updater_registrations_def)

lemma consistent_resize:
  assumes "consistent (st, ctx)"
  shows "consistent (app_step (Swapchain_resized w h) (st, ctx))"
proof -
  from assms obtain p mb v t u where f: "mPipeline st = Some p" "mMaterialBuffer st = Some mb"
      "mOffscreenImageView st = Some v" "mTlas st = Some t" "mUpdater st = Some u"
      "mRegistrations u = updater_registrations"
    and dims: "(image_width (view_image v), image_height (view_image v)) = resolution ctx"
    and pc: "mPushConstants p =
              \<lparr>mShaderStages = {Ray_generation, Closest_hit}, mOffset = 0,
               mSize = sizeof_push_const_data\<rparr>"
    and sv: "storage_views (mResourceBindings p) = [v]"
    and ct: "set (cached_targets st) \<subseteq> insert v (set (superseded st))"
    and h: "view_handle v < next_handle ctx"
    and hs: "list_all (\<lambda>old. view_handle old < next_handle ctx
                              \<and> view_handle old \<noteq> view_handle v) (superseded st)"
    unfolding consistent_iff by blast
  have sup: "superseded st = map snd (mUpdateesToCleanUp u)"
    by (simp add: superseded_def f)
  show ?thesis
    unfolding resize_step [OF f(1) f(3) f(5) f(6)] consistent_iff
    using f dims pc sv ct h hs
    by (auto simp: rebind_views cached_targets_def superseded_def resized_view_def
        list_all_iff)
qed

lemma consistent_shader:
  assumes "consistent (st, ctx)"
  shows "consistent (app_step Shader_files_changed (st, ctx))"
proof -
  from assms obtain p mb v t u where f: "mPipeline st = Some p" "mMaterialBuffer st = Some mb"
      "mOffscreenImageView st = Some v" "mTlas st = Some t" "mUpdater st = Some u"
      "mRegistrations u = updater_registrations"
    and dims: "(image_width (view_image v), image_height (view_image v)) = resolution ctx"
    and pc: "mPushConstants p =
              \<lparr>mShaderStages = {Ray_generation, Closest_hit}, mOffset = 0,
               mSize = sizeof_push_const_data\<rparr>"
    and sv: "storage_views (mResourceBindings p) = [v]"
    and ct: "set (cached_targets st) \<subseteq> insert v (set (superseded st))"
    and h: "view_handle v < next_handle ctx"
    and hs: "list_all (\<lambda>old. view_handle old < next_handle ctx
                              \<and> view_handle old \<noteq> view_handle v) (superseded st)"
    unfolding consistent_iff by blast
  show ?thesis
    unfolding shader_step [OF f(1) f(5) f(6)] consistent_iff
    using f dims pc sv ct h hs
    by (auto simp: rebind_views cached_targets_def superseded_def list_all_iff)
qed


lemma render_result:
  assumes "mPipeline st = Some p" "mMaterialBuffer st = Some mb"
    "mOffscreenImageView st = Some v" "mTlas st = Some t"
  shows "render ctx st =
    Some (st\<lparr>mDescriptorCache :=
               snd (get_or_create_descriptor_sets (bound_resources st mb v t) (mDescriptorCache st))\<rparr>,
          [\<lparr>sub_queue = mQueue st,
            sub_command_buffer =
              \<lparr>cb_state = Executable,
               cb_commands =
                 [Bind_pipeline (pipeline_handle p),
                  Bind_descriptors (pipeline_handle p)
                    (fst (get_or_create_descriptor_sets (bound_resources st mb v t)
                            (mDescriptorCache st))),
                  Push_constants (pipeline_handle p) {Ray_generation, Closest_hit} 0
                    sizeof_push_const_data (push_constants_of st),
                  Trace_rays (resolution ctx) (pipeline_handle p) 0 0 0,
                  Global_memory_barrier Stage_ray_tracing_shaders Stage_transfer
                    Shader_buffers_and_images_write_access Transfer_read_access,
                  Copy_image_to_another v (current_backbuffer_image ctx),
                  Global_memory_barrier Stage_transfer Stage_color_attachment_output
                    Transfer_write_access Color_attachment_write_access]\<rparr>,
            sub_wait_semaphore = image_available_semaphore ctx\<rparr>])"
  using assms
  by (simp add: render_def Let_def bound_resources_def push_constants_of_def
      begin_recording_def end_recording_def record_command_def alloc_command_buffer_def)

lemma fold_add_sets:
  "set (fold (\<lambda>ds c. if ds \<in> set c then c else c @ [ds]) sets cache) = set cache \<union> set sets"
  by (induction sets arbitrary: cache) auto

lemma storage_views_filter: "set (storage_views (filter P bs)) \<subseteq> set (storage_views bs)"
  by (induction bs) (auto split: resource.splits)

lemma storage_views_bound_resources [simp]: "storage_views (bound_resources st mb v t) = [v]"
  by (simp add: bound_resources_def descriptor_binding_def)

lemma cached_after_render:
  "set (concat (map storage_views (snd (get_or_create_descriptor_sets bs cache)))) \<subseteq>
     set (concat (map storage_views cache)) \<union> set (storage_views bs)"
  using storage_views_filter [of _ bs]
  by (auto simp: get_or_create_descriptor_sets_def Let_def fold_add_sets)

lemma references_handle_iff:
  "references_handle h ds \<longleftrightarrow> h \<in> view_handle ` set (storage_views ds)"
  by (induction ds) (auto simp: references_handle_def split: resource.splits)

lemma cleanup_fold:
  "fold (\<lambda>e. invoke_handler Remove_sets_with_handle (snd e)) due st =
     st\<lparr>mDescriptorCache :=
          filter (\<lambda>ds. \<forall>e\<in>set due. \<not> references_handle (view_handle (snd e)) ds)
            (mDescriptorCache st)\<rparr>"
proof (induction due arbitrary: st)
  case Nil
  show ?case by simp
next
  case (Cons e due)
  have "fold (\<lambda>e. invoke_handler Remove_sets_with_handle (snd e)) (e # due) st =
      fold (\<lambda>e. invoke_handler Remove_sets_with_handle (snd e)) due
        (invoke_handler Remove_sets_with_handle (snd e) st)"
    by (simp del: invoke_handler.simps)
  also have "\<dots> = (invoke_handler Remove_sets_with_handle (snd e) st)
      \<lparr>mDescriptorCache :=
          filter (\<lambda>ds. \<forall>e\<in>set due. \<not> references_handle (view_handle (snd e)) ds)
            (mDescriptorCache (invoke_handler Remove_sets_with_handle (snd e) st))\<rparr>"
    by (rule Cons.IH)
  also have "\<dots> = st\<lparr>mDescriptorCache :=
          filter (\<lambda>ds. \<forall>e\<in>set (e # due). \<not> references_handle (view_handle (snd e)) ds)
            (mDescriptorCache st)\<rparr>"
    by (simp add: remove_sets_with_handle_def conj_commute)
  finally show ?case .
qed

lemma destroying_handlers_registered:
  "mRegistrations u = updater_registrations \<Longrightarrow> destroying_handlers u = [Remove_sets_with_handle]"
  by (simp add: destroying_handlers_def updater_registrations_def)

lemma cleanup_result:
  assumes "mUpdater st = Some u" "mRegistrations u = updater_registrations"
  shows "updater_cleanup ctx st =
    st\<lparr>mDescriptorCache :=
          filter (\<lambda>ds. \<forall>e\<in>set (filter (\<lambda>e. retired ctx (fst e)) (mUpdateesToCleanUp u)).
                          \<not> references_handle (view_handle (snd e)) ds)
            (mDescriptorCache st),
       mUpdater := Some (u\<lparr>mUpdateesToCleanUp :=
                           filter (\<lambda>e. \<not> retired ctx (fst e)) (mUpdateesToCleanUp u)\<rparr>)\<rparr>"
  using assms
  by (simp add: updater_cleanup_def Let_def destroying_handlers_registered cleanup_fold
      del: invoke_handler.simps)

lemma update_result:
  "fst (update inp ctx st) =
     st\<lparr>updateUntilFrame := updateUntilFrame (directional_keys inp st ctx),
        mQuakeCam := (if Key_f1 \<in> key_pressed inp
                      then (mQuakeCam st)\<lparr>cam_enabled := \<not> cam_enabled (mQuakeCam st)\<rparr>
                      else mQuakeCam st)\<rparr>"
  by (simp add: update_def Let_def directional_keys_def)

lemma consistent_context:
  "resolution ctx' = resolution ctx \<Longrightarrow> next_handle ctx' = next_handle ctx \<Longrightarrow>
     consistent (st, ctx') = consistent (st, ctx)"
  by (simp add: consistent_iff)

lemma consistent_cleanup:
  assumes "consistent (st, ctx)"
  shows "consistent (updater_cleanup ctx' st, ctx)"
proof -
  from assms obtain p mb v t u where f: "mPipeline st = Some p" "mMaterialBuffer st = Some mb"
      "mOffscreenImageView st = Some v" "mTlas st = Some t" "mUpdater st = Some u"
      "mRegistrations u = updater_registrations"
    and dims: "(image_width (view_image v), image_height (view_image v)) = resolution ctx"
    and pc: "mPushConstants p =
              \<lparr>mShaderStages = {Ray_generation, Closest_hit}, mOffset = 0,
               mSize = sizeof_push_const_data\<rparr>"
    and sv: "storage_views (mResourceBindings p) = [v]"
    and ct: "set (cached_targets st) \<subseteq> insert v (set (superseded st))"
    and h: "view_handle v < next_handle ctx"
    and hs: "list_all (\<lambda>old. view_handle old < next_handle ctx
                              \<and> view_handle old \<noteq> view_handle v) (superseded st)"
    unfolding consistent_iff by blast
  let ?st' = "updater_cleanup ctx' st"
  note res = cleanup_result [OF f(5) f(6), of ctx']
  have sup: "superseded st = map snd (mUpdateesToCleanUp u)"
    by (simp add: superseded_def f)
  have sup': "superseded ?st' = map snd (filter (\<lambda>e. \<not> retired ctx' (fst e)) (mUpdateesToCleanUp u))"
    by (simp add: res superseded_def)
  have cache': "mDescriptorCache ?st' =
      filter (\<lambda>ds. \<forall>e\<in>set (filter (\<lambda>e. retired ctx' (fst e)) (mUpdateesToCleanUp u)).
                          \<not> references_handle (view_handle (snd e)) ds) (mDescriptorCache st)"
    by (simp add: res)
  have "x = v \<or> x \<in> set (superseded ?st')" if "x \<in> set (cached_targets ?st')" for x
  proof -
    from that obtain ds where ds: "ds \<in> set (mDescriptorCache ?st')" "x \<in> set (storage_views ds)"
      by (auto simp: cached_targets_def)
    from ds(1) have old: "ds \<in> set (mDescriptorCache st)"
      by (simp add: cache')
    have kept: "\<not> references_handle (view_handle (snd e)) ds"
      if "e \<in> set (mUpdateesToCleanUp u)" "retired ctx' (fst e)" for e
      using ds(1) that by (cases e) (auto simp: cache')
    from old ds(2) have "x \<in> set (cached_targets st)"
      by (auto simp: cached_targets_def)
    with ct have "x = v \<or> x \<in> set (superseded st)"
      by auto
    then show ?thesis
    proof
      assume "x = v"
      then show ?thesis ..
    next
      assume "x \<in> set (superseded st)"
      then obtain e where e: "e \<in> set (mUpdateesToCleanUp u)" "x = snd e"
        by (auto simp: sup)
      from ds(2) e(2) have "references_handle (view_handle (snd e)) ds"
        unfolding references_handle_iff by (intro imageI) simp
      with kept [OF e(1)] have "\<not> retired ctx' (fst e)"
        by blast
      with e show ?thesis
        by (auto simp: sup')
    qed
  qed
  then have ct': "set (cached_targets ?st') \<subseteq> insert v (set (superseded ?st'))"
    by auto
  have hs': "list_all (\<lambda>old. view_handle old < next_handle ctx
                              \<and> view_handle old \<noteq> view_handle v) (superseded ?st')"
    using hs by (auto simp: sup sup' list_all_iff)
  have "mPipeline ?st' = Some p" "mMaterialBuffer ?st' = Some mb"
      "mOffscreenImageView ?st' = Some v" "mTlas ?st' = Some t"
      "\<exists>u'. mUpdater ?st' = Some u' \<and> mRegistrations u' = updater_registrations"
    using f by (simp_all add: res)
  then show ?thesis
    unfolding consistent_iff using dims pc sv ct' h hs' by blast
qed

lemma consistent_update:
  "consistent (fst (update inp ctx' st), ctx) = consistent (st, ctx)"
proof -
  have "mPipeline (fst (update inp ctx' st)) = mPipeline st"
    "mMaterialBuffer (fst (update inp ctx' st)) = mMaterialBuffer st"
    "mOffscreenImageView (fst (update inp ctx' st)) = mOffscreenImageView st"
    "mTlas (fst (update inp ctx' st)) = mTlas st"
    "mUpdater (fst (update inp ctx' st)) = mUpdater st"
    "mDescriptorCache (fst (update inp ctx' st)) = mDescriptorCache st"
    by (simp_all add: update_result)
  then show ?thesis
    by (simp add: consistent_iff cached_targets_def superseded_def)
qed

lemma consistent_render:
  assumes "consistent (st, ctx)"
  shows "\<exists>r. render ctx' st = Some r \<and> consistent (fst r, ctx)"
proof -
  from assms obtain p mb v t u where f: "mPipeline st = Some p" "mMaterialBuffer st = Some mb"
      "mOffscreenImageView st = Some v" "mTlas st = Some t" "mUpdater st = Some u"
      "mRegistrations u = updater_registrations"
    and dims: "(image_width (view_image v), image_height (view_image v)) = resolution ctx"
    and pc: "mPushConstants p =
              \<lparr>mShaderStages = {Ray_generation, Closest_hit}, mOffset = 0,
               mSize = sizeof_push_const_data\<rparr>"
    and sv: "storage_views (mResourceBindings p) = [v]"
    and ct: "set (cached_targets st) \<subseteq> insert v (set (superseded st))"
    and h: "view_handle v < next_handle ctx"
    and hs: "list_all (\<lambda>old. view_handle old < next_handle ctx
                              \<and> view_handle old \<noteq> view_handle v) (superseded st)"
    unfolding consistent_iff by blast
  let ?st' = "st\<lparr>mDescriptorCache :=
       snd (get_or_create_descriptor_sets (bound_resources st mb v t) (mDescriptorCache st))\<rparr>"
  have "set (cached_targets ?st') \<subseteq> set (cached_targets st) \<union> {v}"
    using cached_after_render [of "bound_resources st mb v t" "mDescriptorCache st"]
    by (simp add: cached_targets_def)
  with ct have ct': "set (cached_targets ?st') \<subseteq> insert v (set (superseded ?st'))"
    by (auto simp: superseded_def)
  have "consistent (?st', ctx)"
    unfolding consistent_iff using f dims pc sv ct' h hs
    by (simp add: superseded_def)
  then show ?thesis
    by (simp add: render_result [OF f(1-4)])
qed

lemma consistent_frame:
  assumes "consistent (st, ctx)"
  shows "consistent (app_step (Frame inp backbuffer semaphore) (st, ctx))"
proof -
  let ?ctx1 = "ctx\<lparr>current_backbuffer_image := backbuffer, image_available_semaphore := semaphore\<rparr>"
  let ?st2 = "fst (update inp ?ctx1 (updater_cleanup ?ctx1 st))"
  have fs: "frame_state inp backbuffer semaphore (st, ctx) = (?st2, ?ctx1)"
    by (simp add: frame_state_def Let_def)
  have c2: "consistent (?st2, ctx)"
    using consistent_cleanup [OF assms, of ?ctx1] by (simp only: consistent_update)
  from consistent_render [OF c2, of ?ctx1] obtain r
    where r: "render ?ctx1 ?st2 = Some r" "consistent (fst r, ctx)"
    by blast
  have "app_step (Frame inp backbuffer semaphore) (st, ctx) =
      (fst r, ?ctx1\<lparr>current_frame := current_frame ?ctx1 + 1\<rparr>)"
    unfolding app_step.simps Let_def fs fst_conv snd_conv r(1) by simp
  moreover have "consistent (fst r, ?ctx1\<lparr>current_frame := current_frame ?ctx1 + 1\<rparr>) =
      consistent (fst r, ctx)"
    by (rule consistent_context) simp_all
  ultimately show ?thesis
    using r(2) by simp
qed

lemma consistent_step: "consistent sc \<Longrightarrow> consistent (app_step ev sc)"
proof (cases sc)
  case (Pair st ctx)
  assume "consistent sc"
  with Pair have c: "consistent (st, ctx)"
    by simp
  show ?thesis
  proof (cases ev)
    case (Swapchain_resized w h)
    then show ?thesis using consistent_resize [OF c] Pair by simp
  next
    case Shader_files_changed
    then show ?thesis using consistent_shader [OF c] Pair by simp
  next
    case (Frame inp b s)
    then show ?thesis using consistent_frame [OF c] Pair by simp
  next
    case (Ui_changed l f)
    then show ?thesis
      using c Pair by (simp add: consistent_iff cached_targets_def superseded_def)
  next
    case (Camera_moved m t)
    then show ?thesis
      using c Pair by (simp add: consistent_iff cached_targets_def superseded_def)
  qed
qed

lemma consistent_run: "consistent sc \<Longrightarrow> consistent (run evs sc)"
  unfolding run_def by (induction evs arbitrary: sc) (simp_all add: consistent_step)

lemma consistent_reachable: "consistent (run evs (started orca ctx aQueue cam))"
  by (rule consistent_run [OF consistent_started])

section \<open>Frames, the update window and resizes: auxiliary facts\<close>

lemma consistent_frame_state:
  assumes "consistent sc"
  shows "consistent (frame_state inp backbuffer semaphore sc)"
proof -
  obtain st ctx where sc: "sc = (st, ctx)"
    by (cases sc)
  let ?ctx1 = "ctx\<lparr>current_backbuffer_image := backbuffer, image_available_semaphore := semaphore\<rparr>"
  have "consistent (fst (update inp ?ctx1 (updater_cleanup ?ctx1 st)), ctx)"
    using consistent_cleanup [of st ctx ?ctx1] assms sc by (simp only: consistent_update)
  moreover have "consistent (fst (update inp ?ctx1 (updater_cleanup ?ctx1 st)), ?ctx1) =
      consistent (fst (update inp ?ctx1 (updater_cleanup ?ctx1 st)), ctx)"
    by (rule consistent_context) simp_all
  ultimately show ?thesis
    by (simp add: frame_state_def Let_def sc)
qed

lemma frame_state_members:
  assumes "consistent sc"
  shows "mQueue (fst (frame_state inp backbuffer semaphore sc)) = mQueue (fst sc)"
    "mLightDir (fst (frame_state inp backbuffer semaphore sc)) = mLightDir (fst sc)"
    "mFieldOfViewForRayTracing (fst (frame_state inp backbuffer semaphore sc)) =
       mFieldOfViewForRayTracing (fst sc)"
    "global_transformation_matrix (mQuakeCam (fst (frame_state inp backbuffer semaphore sc))) =
       global_transformation_matrix (mQuakeCam (fst sc))"
    "mOffscreenImageView (fst (frame_state inp backbuffer semaphore sc)) = mOffscreenImageView (fst sc)"
    "mPipeline (fst (frame_state inp backbuffer semaphore sc)) = mPipeline (fst sc)"
    "mTlas (fst (frame_state inp backbuffer semaphore sc)) = mTlas (fst sc)"
    "mGeometryInstances (fst (frame_state inp backbuffer semaphore sc)) = mGeometryInstances (fst sc)"
    "resolution (snd (frame_state inp backbuffer semaphore sc)) = resolution (snd sc)"
    "current_backbuffer_image (snd (frame_state inp backbuffer semaphore sc)) = backbuffer"
    "image_available_semaphore (snd (frame_state inp backbuffer semaphore sc)) = semaphore"
proof -
  obtain st ctx where sc: "sc = (st, ctx)"
    by (cases sc)
  from assms obtain u where u: "mUpdater st = Some u" "mRegistrations u = updater_registrations"
    unfolding sc consistent_iff by blast
  note res = cleanup_result [OF u]
  show "mQueue (fst (frame_state inp backbuffer semaphore sc)) = mQueue (fst sc)"
    "mLightDir (fst (frame_state inp backbuffer semaphore sc)) = mLightDir (fst sc)"
    "mFieldOfViewForRayTracing (fst (frame_state inp backbuffer semaphore sc)) =
       mFieldOfViewForRayTracing (fst sc)"
    "global_transformation_matrix (mQuakeCam (fst (frame_state inp backbuffer semaphore sc))) =
       global_transformation_matrix (mQuakeCam (fst sc))"
    "mOffscreenImageView (fst (frame_state inp backbuffer semaphore sc)) = mOffscreenImageView (fst sc)"
    "mPipeline (fst (frame_state inp backbuffer semaphore sc)) = mPipeline (fst sc)"
    "mTlas (fst (frame_state inp backbuffer semaphore sc)) = mTlas (fst sc)"
    "mGeometryInstances (fst (frame_state inp backbuffer semaphore sc)) = mGeometryInstances (fst sc)"
    "resolution (snd (frame_state inp backbuffer semaphore sc)) = resolution (snd sc)"
    "current_backbuffer_image (snd (frame_state inp backbuffer semaphore sc)) = backbuffer"
    "image_available_semaphore (snd (frame_state inp backbuffer semaphore sc)) = semaphore"
    by (simp_all add: frame_state_def Let_def sc update_result res)
qed

lemma queue_step:
  assumes "consistent sc"
  shows "mQueue (fst (app_step ev sc)) = mQueue (fst sc)"
proof -
  obtain st ctx where sc: "sc = (st, ctx)"
    by (cases sc)
  from assms obtain p mb v t u where f: "mPipeline st = Some p" "mMaterialBuffer st = Some mb"
      "mOffscreenImageView st = Some v" "mTlas st = Some t" "mUpdater st = Some u"
      "mRegistrations u = updater_registrations"
    unfolding sc consistent_iff by blast
  show ?thesis
  proof (cases ev)
    case (Swapchain_resized w h)
    then show ?thesis
      unfolding sc by (simp only: resize_step [OF f(1) f(3) f(5) f(6)]) simp
  next
    case Shader_files_changed
    then show ?thesis
      unfolding sc by (simp only: shader_step [OF f(1) f(5) f(6)]) simp
  next
    case (Frame inp b s)
    let ?fs = "frame_state inp b s (st, ctx)"
    have c: "consistent ?fs"
      using consistent_frame_state assms sc by blast
    have c': "consistent (fst ?fs, snd ?fs)"
      using c by simp
    from consistent_render [OF c', of "snd ?fs"] obtain r
      where r: "render (snd ?fs) (fst ?fs) = Some r"
      by blast
    from c' obtain p' mb' v' t' where f': "mPipeline (fst ?fs) = Some p'"
      "mMaterialBuffer (fst ?fs) = Some mb'" "mOffscreenImageView (fst ?fs) = Some v'"
      "mTlas (fst ?fs) = Some t'"
      unfolding consistent_iff by blast
    have "mQueue (fst r) = mQueue (fst ?fs)"
      using r unfolding render_result [OF f'] by auto
    then show ?thesis
      using frame_state_members(1) [OF assms, of inp b s] Frame
      by (simp add: sc Let_def r)
  next
    case (Ui_changed l f)
    then show ?thesis by (simp add: sc)
  next
    case (Camera_moved m t)
    then show ?thesis by (simp add: sc)
  qed
qed

lemma queue_run: "consistent sc \<Longrightarrow> mQueue (fst (run evs sc)) = mQueue (fst sc)"
  unfolding run_def
  by (induction evs arbitrary: sc) (simp_all add: consistent_step queue_step)

lemma queue_started: "mQueue (fst (started orca ctx aQueue cam)) = aQueue"
  by (simp add: started_def initialize_def Let_def load_scene_keeps constructed_def)

lemma queue_reachable: "mQueue (fst (run evs (started orca ctx aQueue cam))) = aQueue"
  by (simp add: queue_run [OF consistent_started] queue_started)

lemma frame_render:
  assumes "consistent sc"
  shows "\<exists>p mb v t. mPipeline (fst sc) = Some p \<and> mMaterialBuffer (fst sc) = Some mb
    \<and> mOffscreenImageView (fst sc) = Some v \<and> mTlas (fst sc) = Some t
    \<and> (image_width (view_image v), image_height (view_image v)) = resolution (snd sc)
    \<and> mPushConstants p =
              \<lparr>mShaderStages = {Ray_generation, Closest_hit}, mOffset = 0,
               mSize = sizeof_push_const_data\<rparr>
    \<and> render (snd (frame_state inp backbuffer semaphore sc))
          (fst (frame_state inp backbuffer semaphore sc)) =
        Some ((fst (frame_state inp backbuffer semaphore sc))
                \<lparr>mDescriptorCache :=
                   snd (get_or_create_descriptor_sets
                          (bound_resources (fst (frame_state inp backbuffer semaphore sc)) mb v t)
                          (mDescriptorCache (fst (frame_state inp backbuffer semaphore sc))))\<rparr>,
          [\<lparr>sub_queue = mQueue (fst sc),
            sub_command_buffer =
              \<lparr>cb_state = Executable,
               cb_commands =
                 [Bind_pipeline (pipeline_handle p),
                  Bind_descriptors (pipeline_handle p)
                    (fst (get_or_create_descriptor_sets
                            (bound_resources (fst (frame_state inp backbuffer semaphore sc)) mb v t)
                            (mDescriptorCache (fst (frame_state inp backbuffer semaphore sc))))),
                  Push_constants (pipeline_handle p) {Ray_generation, Closest_hit} 0
                    sizeof_push_const_data (push_constants_of (fst sc)),
                  Trace_rays (image_width (view_image v), image_height (view_image v))
                    (pipeline_handle p) 0 0 0,
                  Global_memory_barrier Stage_ray_tracing_shaders Stage_transfer
                    Shader_buffers_and_images_write_access Transfer_read_access,
                  Copy_image_to_another v backbuffer,
                  Global_memory_barrier Stage_transfer Stage_color_attachment_output
                    Transfer_write_access Color_attachment_write_access]\<rparr>,
            sub_wait_semaphore = semaphore\<rparr>])"
proof -
  let ?fs = "frame_state inp backbuffer semaphore sc"
  from assms obtain p mb v t where f: "mPipeline (fst sc) = Some p"
      "mMaterialBuffer (fst sc) = Some mb" "mOffscreenImageView (fst sc) = Some v"
      "mTlas (fst sc) = Some t"
    and dims: "(image_width (view_image v), image_height (view_image v)) = resolution (snd sc)"
    and pc: "mPushConstants p =
              \<lparr>mShaderStages = {Ray_generation, Closest_hit}, mOffset = 0,
               mSize = sizeof_push_const_data\<rparr>"
    using consistent_iff [of "fst sc" "snd sc"] by auto
  have "consistent (fst ?fs, snd ?fs)"
    using consistent_frame_state [OF assms, of inp backbuffer semaphore] by simp
  then obtain mb' where mb': "mMaterialBuffer (fst ?fs) = Some mb'"
    unfolding consistent_iff by blast
  note m = frame_state_members [OF assms, of inp backbuffer semaphore]
  have "mMaterialBuffer (fst ?fs) = mMaterialBuffer (fst sc)"
  proof -
    obtain st ctx where sc: "sc = (st, ctx)"
      by (cases sc)
    from assms obtain u where u: "mUpdater st = Some u" "mRegistrations u = updater_registrations"
      unfolding sc consistent_iff by blast
    show ?thesis
      by (simp add: frame_state_def Let_def sc update_result cleanup_result [OF u])
  qed
  then have fmb: "mMaterialBuffer (fst ?fs) = Some mb"
    by (simp add: f)
  have fp: "mPipeline (fst ?fs) = Some p" "mOffscreenImageView (fst ?fs) = Some v"
    "mTlas (fst ?fs) = Some t"
    by (simp_all add: m f)
  have pcs: "push_constants_of (fst ?fs) = push_constants_of (fst sc)"
    by (simp add: push_constants_of_def m)
  have "render (snd ?fs) (fst ?fs) = Some ((fst ?fs)
                \<lparr>mDescriptorCache :=
                   snd (get_or_create_descriptor_sets (bound_resources (fst ?fs) mb v t)
                          (mDescriptorCache (fst ?fs)))\<rparr>,
          [\<lparr>sub_queue = mQueue (fst sc),
            sub_command_buffer =
              \<lparr>cb_state = Executable,
               cb_commands =
                 [Bind_pipeline (pipeline_handle p),
                  Bind_descriptors (pipeline_handle p)
                    (fst (get_or_create_descriptor_sets (bound_resources (fst ?fs) mb v t)
                            (mDescriptorCache (fst ?fs)))),
                  Push_constants (pipeline_handle p) {Ray_generation, Closest_hit} 0
                    sizeof_push_const_data (push_constants_of (fst sc)),
                  Trace_rays (image_width (view_image v), image_height (view_image v))
                    (pipeline_handle p) 0 0 0,
                  Global_memory_barrier Stage_ray_tracing_shaders Stage_transfer
                    Shader_buffers_and_images_write_access Transfer_read_access,
                  Copy_image_to_another v backbuffer,
                  Global_memory_barrier Stage_transfer Stage_color_attachment_output
                    Transfer_write_access Color_attachment_write_access]\<rparr>,
            sub_wait_semaphore = semaphore\<rparr>])"
    unfolding render_result [OF fp(1) fmb fp(2) fp(3)] pcs m dims by (rule refl)
  with f dims pc show ?thesis
    by blast
qed

lemma in_storage_views:
  "b \<in> set bs \<Longrightarrow> mResource b = Bound_storage_image u \<Longrightarrow> u \<in> set (storage_views bs)"
  by (induction bs) auto

lemma rebind_same:
  assumes "mOffscreenImageView st = Some v" "storage_views bs = [v]"
  shows "map (rebind st) bs = bs"
proof -
  have "rebind st b = b" if "b \<in> set bs" for b
  proof (cases "mResource b")
    case (Bound_storage_image u)
    with that assms(2) have "u = v"
      using in_storage_views [of b bs u] by simp
    with Bound_storage_image have "b\<lparr>mResource := Bound_storage_image v\<rparr> = b"
      by simp
    with Bound_storage_image show ?thesis
      by (simp add: rebind_def assms(1))
  qed (simp_all add: rebind_def)
  then show ?thesis
    by (simp add: map_idI)
qed

lemma sint_add_64:
  fixes a b :: "64 word"
  assumes "- (2 ^ 63) \<le> sint a + sint b" "sint a + sint b < 2 ^ 63"
  shows "sint (a + b) = sint a + sint b"
  using assms by (simp add: sint_word_ariths signed_take_bit_int_eq_self)

lemma sint_sub_64:
  fixes a b :: "64 word"
  assumes "- (2 ^ 63) \<le> sint a - sint b" "sint a - sint b < 2 ^ 63"
  shows "sint (a - b) = sint a - sint b"
  using assms by (simp add: sint_word_ariths signed_take_bit_int_eq_self)

lemma sint_of_nat_64:
  assumes "int k < 2 ^ 63"
  shows "sint (of_nat k :: 64 word) = int k"
  using assms by (simp add: signed_of_nat signed_take_bit_int_eq_self)

lemma update_until:
  "updateUntilFrame (fst (update inp ctx st)) =
     (if directional inp then current_frame ctx + number_of_frames_in_flight ctx - 1
      else updateUntilFrame st)"
  by (simp add: update_result directional_keys_def directional_def)

lemma directional_keys_until:
  "updateUntilFrame (directional_keys inp st ctx) =
     (if directional inp then current_frame ctx + number_of_frames_in_flight ctx - 1
      else updateUntilFrame st)"
  by (simp add: directional_keys_def directional_def)

lemma update_issues_nothing: "\<not> tlas_update_issued st (fst (update inp ctx st))"
  by (simp add: tlas_update_issued_def update_result)

lemma upt_head: "[j..<Suc (j + n)] = j # [Suc j..<Suc (j + n)]"
  by (rule upt_conv_Cons) simp

lemma idle_window:
  fixes F U :: "64 word"
  assumes "list_all (\<lambda>i. \<not> directional i) inps"
    and "updateUntilFrame st = U" "current_frame ctx = F + of_nat j"
    and "0 \<le> sint F" "sint F + int j + int (length inps) < 2 ^ 63"
  shows "gate_trace inps ctx st = map (\<lambda>k. sint F + int k \<le> sint U) [j..<j + length inps]"
  using assms
proof (induction inps arbitrary: ctx st j)
  case Nil
  show ?case by simp
next
  case (Cons inp inps)
  from Cons.prems have idle: "\<not> directional inp" and rest: "list_all (\<lambda>i. \<not> directional i) inps"
    by simp_all
  from Cons.prems have j: "int j < 2 ^ 63" and Fj: "sint F + int j < 2 ^ 63"
    by simp_all
  have "sint (of_nat j :: 64 word) = int j"
    by (rule sint_of_nat_64 [OF j])
  with Cons.prems(4) Fj have now: "sint (F + of_nat j) = sint F + int j"
    by (simp add: sint_add_64)
  have head: "in_update_window ctx (directional_keys inp st ctx) = (sint F + int j \<le> sint U)"
    using idle Cons.prems(2,3) now
    by (simp add: in_update_window_def directional_keys_until word_sle_eq)
  have next_frame: "current_frame (ctx\<lparr>current_frame := current_frame ctx + 1\<rparr>) = F + of_nat (Suc j)"
    using Cons.prems(3) by simp
  have keep: "updateUntilFrame (fst (update inp ctx st)) = U"
    using idle Cons.prems(2) by (simp add: update_until)
  have bound: "sint F + int (Suc j) + int (length inps) < 2 ^ 63"
    using Cons.prems(5) by simp
  have tail: "gate_trace inps (ctx\<lparr>current_frame := current_frame ctx + 1\<rparr>)
      (fst (update inp ctx st)) = map (\<lambda>k. sint F + int k \<le> sint U) [Suc j..<Suc j + length inps]"
    by (rule Cons.IH [OF rest keep next_frame Cons.prems(4) bound])
  have "[j..<j + length (inp # inps)] = j # [Suc j..<Suc j + length inps]"
    using upt_head [of j "length inps"] by simp
  then show ?case
    by (simp only: gate_trace.simps head tail list.map)
qed

lemma superseded_awaiting: "superseded st = map snd (awaiting st)"
  by (simp add: superseded_def awaiting_def split: option.split)

lemma all_retired_awaiting: "all_retired ctx st = list_all (\<lambda>e. retired ctx (fst e)) (awaiting st)"
  by (simp add: all_retired_def awaiting_def split: option.split)

lemma resize_effect:
  assumes "consistent (st, ctx)" "mOffscreenImageView st = Some old"
  shows "mOffscreenImageView (fst (app_step (Swapchain_resized w h) (st, ctx))) =
           Some (resized_view w h old ctx)"
    "pipeline_targets (fst (app_step (Swapchain_resized w h) (st, ctx))) =
           [resized_view w h old ctx]"
    "awaiting (fst (app_step (Swapchain_resized w h) (st, ctx))) =
           awaiting st @ [(current_frame ctx, old)]"
    "next_handle (snd (app_step (Swapchain_resized w h) (st, ctx))) = Suc (Suc (next_handle ctx))"
    "current_frame (snd (app_step (Swapchain_resized w h) (st, ctx))) = current_frame ctx"
    "view_handle old < next_handle ctx"
proof -
  from assms obtain p u where f: "mPipeline st = Some p" "mUpdater st = Some u"
      "mRegistrations u = updater_registrations"
    and sv: "storage_views (mResourceBindings p) = [old]"
    and h: "view_handle old < next_handle ctx"
    unfolding consistent_iff by auto
  note step = resize_step [OF f(1) assms(2) f(2) f(3), of w h ctx]
  show "mOffscreenImageView (fst (app_step (Swapchain_resized w h) (st, ctx))) =
           Some (resized_view w h old ctx)"
    "awaiting (fst (app_step (Swapchain_resized w h) (st, ctx))) =
           awaiting st @ [(current_frame ctx, old)]"
    "next_handle (snd (app_step (Swapchain_resized w h) (st, ctx))) = Suc (Suc (next_handle ctx))"
    "current_frame (snd (app_step (Swapchain_resized w h) (st, ctx))) = current_frame ctx"
    unfolding step by (simp_all add: awaiting_def f)
  show "pipeline_targets (fst (app_step (Swapchain_resized w h) (st, ctx))) =
           [resized_view w h old ctx]"
    unfolding step by (simp add: pipeline_targets_def rebind_views sv)
  show "view_handle old < next_handle ctx"
    by (rule h)
qed

lemma cleanup_effect:
  assumes "consistent (st, ctx)"
  shows "e \<in> set (awaiting st) \<Longrightarrow> retired ctx' (fst e) \<Longrightarrow>
      list_all (\<lambda>ds. \<not> references_handle (view_handle (snd e)) ds)
        (mDescriptorCache (updater_cleanup ctx' st))"
    "awaiting (updater_cleanup ctx' st) = filter (\<lambda>e. \<not> retired ctx' (fst e)) (awaiting st)"
    "mOffscreenImageView (updater_cleanup ctx' st) = mOffscreenImageView st"
    "pipeline_targets (updater_cleanup ctx' st) = pipeline_targets st"
proof -
  from assms obtain u where u: "mUpdater st = Some u" "mRegistrations u = updater_registrations"
    unfolding consistent_iff by blast
  note res = cleanup_result [OF u, of ctx']
  show "list_all (\<lambda>ds. \<not> references_handle (view_handle (snd e)) ds)
        (mDescriptorCache (updater_cleanup ctx' st))"
    if "e \<in> set (awaiting st)" "retired ctx' (fst e)"
    using that unfolding res by (cases e) (auto simp: awaiting_def u list_all_iff)
  show "awaiting (updater_cleanup ctx' st) = filter (\<lambda>e. \<not> retired ctx' (fst e)) (awaiting st)"
    "mOffscreenImageView (updater_cleanup ctx' st) = mOffscreenImageView st"
    "pipeline_targets (updater_cleanup ctx' st) = pipeline_targets st"
    unfolding res by (simp_all add: awaiting_def u pipeline_targets_def)
qed

lemma consistent_targets:
  assumes "consistent (st, ctx)" "mOffscreenImageView st = Some v"
  shows "pipeline_targets st = [v]"
    "set (cached_targets st) \<subseteq> insert v (set (superseded st))"
  using assms unfolding consistent_iff by (auto simp: pipeline_targets_def)

lemma instance_loop_keeps_ui:
  "mLightDir (fold (instance_body blas) insts st) = mLightDir st"
  "mFieldOfViewForRayTracing (fold (instance_body blas) insts st) = mFieldOfViewForRayTracing st"
  "mQuakeCam (fold (instance_body blas) insts st) = mQuakeCam st"
  by (induction insts arbitrary: st; simp add: instance_body_def Let_def)+

lemma material_loop_keeps_ui:
  "mLightDir (fst (fold (material_body model) es acc)) = mLightDir (fst acc)"
  "mFieldOfViewForRayTracing (fst (fold (material_body model) es acc)) =
     mFieldOfViewForRayTracing (fst acc)"
  "mQuakeCam (fst (fold (material_body model) es acc)) = mQuakeCam (fst acc)"
  by (induction es arbitrary: acc; simp add: material_body_def Let_def instance_loop_keeps_ui)+

lemma model_loop_keeps_ui:
  "mLightDir (fst (fold model_body models acc)) = mLightDir (fst acc)"
  "mFieldOfViewForRayTracing (fst (fold model_body models acc)) =
     mFieldOfViewForRayTracing (fst acc)"
  "mQuakeCam (fst (fold model_body models acc)) = mQuakeCam (fst acc)"
  by (induction models arbitrary: acc; simp add: model_body_def Let_def material_loop_keeps_ui)+

lemma started_ui:
  "mLightDir (fst (started orca ctx aQueue cam)) = (Float_lit 8 1, Float_lit 10 1, Float_lit 0 1)"
  "mFieldOfViewForRayTracing (fst (started orca ctx aQueue cam)) = Float_lit 450 1"
  "global_transformation_matrix (mQuakeCam (fst (started orca ctx aQueue cam))) =
     global_transformation_matrix cam"
  by (simp_all add: started_def initialize_def Let_def load_scene_def load_models_def
      model_loop_keeps_ui constructed_def)

lemma started_resources:
  "mOffscreenImageView (fst (started orca ctx aQueue cam)) =
     Some \<lparr>view_handle = next_handle ctx,
           view_image = \<lparr>image_width = fst (resolution ctx), image_height = snd (resolution ctx),
                         image_format = color_buffer_format ctx, image_num_layers = 1,
                         image_layout_transitioned = True\<rparr>\<rparr>"
  "map_option pipeline_handle (mPipeline (fst (started orca ctx aQueue cam))) =
     Some (Suc (next_handle ctx))"
  "awaiting (fst (started orca ctx aQueue cam)) = []"
  "snd (started orca ctx aQueue cam) = ctx\<lparr>next_handle := Suc (Suc (next_handle ctx))\<rparr>"
  by (simp_all add: started_def initialize_def Let_def create_image_view_def
      create_ray_tracing_pipeline_for_def transition_to_layout_def create_image_def awaiting_def)

lemma frame_effect:
  assumes "consistent sc"
  shows "awaiting (fst (app_step (Frame inp b s) sc)) =
      filter (\<lambda>e. \<not> retired ((snd sc)\<lparr>current_backbuffer_image := b,
                                        image_available_semaphore := s\<rparr>) (fst e))
        (awaiting (fst sc))"
    "current_frame (snd (app_step (Frame inp b s) sc)) = current_frame (snd sc) + 1"
    "number_of_frames_in_flight (snd (app_step (Frame inp b s) sc)) =
       number_of_frames_in_flight (snd sc)"
proof -
  obtain st ctx where sc: "sc = (st, ctx)"
    by (cases sc)
  let ?ctx1 = "ctx\<lparr>current_backbuffer_image := b, image_available_semaphore := s\<rparr>"
  let ?fs = "frame_state inp b s (st, ctx)"
  have fs: "?fs = (fst (update inp ?ctx1 (updater_cleanup ?ctx1 st)), ?ctx1)"
    by (simp add: frame_state_def Let_def)
  have c: "consistent (st, ctx)"
    using assms sc by simp
  have c': "consistent (fst ?fs, snd ?fs)"
    using consistent_frame_state [OF c, of inp b s] by simp
  from c' obtain p' mb' v' t' where f': "mPipeline (fst ?fs) = Some p'"
      "mMaterialBuffer (fst ?fs) = Some mb'" "mOffscreenImageView (fst ?fs) = Some v'"
      "mTlas (fst ?fs) = Some t'"
    unfolding consistent_iff by blast
  have "awaiting (fst (app_step (Frame inp b s) (st, ctx))) = awaiting (fst ?fs)"
    unfolding app_step.simps Let_def render_result [OF f'] by (simp add: awaiting_def)
  also have "\<dots> = awaiting (updater_cleanup ?ctx1 st)"
    unfolding fs by (simp add: awaiting_def update_result)
  finally show "awaiting (fst (app_step (Frame inp b s) sc)) =
      filter (\<lambda>e. \<not> retired ((snd sc)\<lparr>current_backbuffer_image := b,
                                        image_available_semaphore := s\<rparr>) (fst e))
        (awaiting (fst sc))"
    by (simp add: sc cleanup_effect(2) [OF c])
  show "current_frame (snd (app_step (Frame inp b s) sc)) = current_frame (snd sc) + 1"
    "number_of_frames_in_flight (snd (app_step (Frame inp b s) sc)) =
       number_of_frames_in_flight (snd sc)"
    unfolding sc app_step.simps Let_def fs by simp_all
qed

lemma double_resize_awaiting:
  assumes "consistent (st, c)"
  shows "\<exists>old new. awaiting (fst (app_step (Swapchain_resized w h)
                       (app_step (Swapchain_resized w h) (st, c)))) =
      awaiting st @ [(current_frame c, old), (current_frame c, new)]"
proof -
  from assms obtain old where old: "mOffscreenImageView st = Some old"
    unfolding consistent_iff by blast
  obtain st1 c1 where p1: "app_step (Swapchain_resized w h) (st, c) = (st1, c1)"
    by (cases "app_step (Swapchain_resized w h) (st, c)")
  note r1 = resize_effect(1-5) [OF assms old, of w h, unfolded p1 fst_conv snd_conv]
  have c1: "consistent (st1, c1)"
    using consistent_resize [OF assms, of w h] unfolding p1 .
  note r2 = resize_effect(1-5) [OF c1 r1(1), of w h]
  have "awaiting (fst (app_step (Swapchain_resized w h) (st1, c1))) =
      awaiting st @ [(current_frame c, old), (current_frame c, resized_view w h old c)]"
    by (simp only: r2(3) r1(3) r1(5) append_assoc append.simps)
  then show ?thesis
    unfolding p1 by (intro exI)
qed

lemma run_Nil [simp]: "run [] sc = sc"
  by (simp add: run_def)

lemma started_example:
  "mOffscreenImageView (fst (started example_scene example_context 7 example_camera)) =
     Some \<lparr>view_handle = 1000,
           view_image = \<lparr>image_width = 1920, image_height = 1080, image_format = 50,
                         image_num_layers = 1, image_layout_transitioned = True\<rparr>\<rparr>"
  "map_option pipeline_handle
     (mPipeline (fst (started example_scene example_context 7 example_camera))) = Some 1001"
  "push_constants_of (fst (started example_scene example_context 7 example_camera)) =
     [Mat4_member (replicate 16 (Float_lit 0 0)),
      Float_member (Fmul (Radians (Float_lit 450 1)) (Float_lit 5 1)),
      Float_member (Float_lit 0 0), Float_member (Float_lit 0 0), Float_member (Float_lit 0 0),
      Vec4_member (Float_lit 8 1, Float_lit 10 1, Float_lit 0 1, Float_lit 0 1)]"
  by (simp_all add: started_resources started_ui push_constants_of_def example_context_def
      example_camera_def)

lemma update_window_frames:
  assumes "directional inp"
    and "list_all (\<lambda>i. \<not> directional i) inps"
    and "0 \<le> sint (current_frame ctx)"
    and "0 < sint (number_of_frames_in_flight ctx)"
    and "sint (current_frame ctx) + sint (number_of_frames_in_flight ctx)
           + int (length inps) < 2 ^ 63"
  shows "gate_trace (inp # inps) ctx st =
       map (\<lambda>k. int k < sint (number_of_frames_in_flight ctx)) [0..<Suc (length inps)]
    \<and> \<not> tlas_update_issued st (fst (update inp ctx st))
    \<and> \<not> tlas_update_issued st' (fst (update inp' ctx' st'))"
proof -
  let ?F = "current_frame ctx" and ?N = "number_of_frames_in_flight ctx"
  let ?U = "?F + ?N - 1"
  have FN: "sint (?F + ?N) = sint ?F + sint ?N"
    using assms(3-5) by (simp add: sint_add_64)
  have U: "sint ?U = sint ?F + sint ?N - 1"
    using assms(3-5) FN sint_sub_64 [of "?F + ?N" 1] by simp
  have head: "in_update_window ctx (directional_keys inp st ctx)"
    using assms(1,4) U by (simp add: in_update_window_def directional_keys_until word_sle_eq)
  have until: "updateUntilFrame (fst (update inp ctx st)) = ?U"
    using assms(1) by (simp add: update_until)
  have next_frame: "current_frame (ctx\<lparr>current_frame := ?F + 1\<rparr>) = ?F + of_nat 1"
    by simp
  have bound: "sint ?F + int 1 + int (length inps) < 2 ^ 63"
    using assms(4,5) by simp
  have tail: "gate_trace inps (ctx\<lparr>current_frame := ?F + 1\<rparr>) (fst (update inp ctx st)) =
      map (\<lambda>k. sint ?F + int k \<le> sint ?U) [1..<1 + length inps]"
    by (rule idle_window [OF assms(2) until next_frame assms(3) bound])
  have same: "(sint ?F + int k \<le> sint ?U) = (int k < sint ?N)" for k
    using U by auto
  have "[0..<Suc (length inps)] = 0 # [1..<1 + length inps]"
    using upt_head [of 0 "length inps"] by simp
  then have "gate_trace (inp # inps) ctx st =
       map (\<lambda>k. int k < sint ?N) [0..<Suc (length inps)]"
    using head tail assms(4) by (simp add: same)
  then show ?thesis
    by (simp only: update_issues_nothing simp_thms)
qed

section \<open>Properties of the scene loader\<close>

text \<open>
  C1 (amended). The custom index of a GeometryInstance is the index, in creation order, of
  the partition it was created from (its position in the buffer-view arrays), so all placed
  instances of one partition share it. For a scene with at most 2^32 partitions the custom
  indices, taken over all GeometryInstances in creation order, are the non-decreasing list
  in which partition index p occurs once per placed instance of p's model; they are the
  sequence 0..N-1 when every model has exactly one placed instance.
\<close>

theorem custom_index_is_partition_index:
  assumes "length (partitions orca) \<le> 2 ^ 32"
  shows "custom_indices (fst (started orca ctx aQueue cam)) = indices_by_partition 0 (partitions orca)
    \<and> sorted (custom_indices (fst (started orca ctx aQueue cam)))
    \<and> (list_all (\<lambda>m. length (mInstances m) = 1) orca \<longrightarrow>
         custom_indices (fst (started orca ctx aQueue cam)) =
           [0..<length (mGeometryInstances (fst (started orca ctx aQueue cam)))])"
proof -
  let ?st = "fst (started orca ctx aQueue cam)"
  have closed: "custom_indices ?st = indices_by_partition 0 (partitions orca)"
    using assms by (simp add: custom_indices_def started_scene custom_of_instances)
  have "custom_indices ?st = [0..<length (mGeometryInstances ?st)]"
    if one: "list_all (\<lambda>m. length (mInstances m) = 1) orca"
  proof -
    have "\<forall>p\<in>set (partitions orca). placements p = 1"
      using one partition_model [of _ orca] by (auto simp: list_all_iff placements_def)
    then have *: "indices_by_partition 0 (partitions orca) = [0..<length (partitions orca)]"
      using indices_by_partition_single [of "partitions orca" 0] by simp
    have "length (mGeometryInstances ?st) = length (custom_indices ?st)"
      by (simp add: custom_indices_def)
    then show ?thesis
      using closed * by simp
  qed
  then show ?thesis
    using closed sorted_indices_by_partition [of 0 "partitions orca"] by simp
qed

theorem custom_index_is_partition_index_witness:
  "length (partitions single_scene) \<le> 2 ^ 32
   \<and> list_all (\<lambda>m. length (mInstances m) = 1) single_scene
   \<and> custom_indices (fst (started single_scene example_context 7 example_camera)) = [0, 1, 2]
   \<and> indices_by_partition 0 (partitions example_scene) = [0, 0, 1, 1, 2, 2, 3]"
proof -
  have bound: "length (partitions single_scene) \<le> 2 ^ 32"
    by (simp add: partitions_def partitions_of_def single_scene_def)
  have one: "list_all (\<lambda>m. length (mInstances m) = 1) single_scene"
    by (simp add: single_scene_def)
  have "indices_by_partition 0 (partitions single_scene) = [0, 1, 2]"
    by (simp add: indices_by_partition_def placements_def partitions_def partitions_of_def
        single_scene_def)
  moreover have "indices_by_partition 0 (partitions example_scene) = [0, 0, 1, 1, 2, 2, 3]"
    by (simp add: indices_by_partition_def placements_def partitions_def partitions_of_def
        example_scene_def numeral_2_eq_2)
  ultimately show ?thesis
    using custom_index_is_partition_index [OF bound, of example_context 7 example_camera]
      bound one by simp
qed

text \<open>
  C1 as stated fails: in \<open>small_scene\<close> model A has one material and two placed
  instances, and both instances get custom index 0.
\<close>

theorem custom_indices_not_dense_counterexample:
  "custom_indices (fst (started small_scene example_context 7 example_camera)) \<noteq>
     [0..<length (mGeometryInstances (fst (started small_scene example_context 7 example_camera)))]"
  by (simp add: custom_indices_def started_scene partitions_def partitions_of_def
      instances_of_def instance_of_def small_scene_def upt_conv_Cons)

text \<open>
  C2. After \<^verbatim>\<open>initialize\<close> the number of GeometryInstances is the sum, over the models,
  of the model's partition count times its number of placed instances; the top-level
  structure is created for exactly that many instances, updatable, and built over the whole
  instance list.
\<close>

theorem instance_count_and_tlas:
  "length (mGeometryInstances (fst (started orca ctx aQueue cam))) =
     (\<Sum>m\<leftarrow>orca. length (distinct_material_configs (mLoadedModel m)) * length (mInstances m))
   \<and> mTlas (fst (started orca ctx aQueue cam)) =
       Some \<lparr>tlas_instance_count = length (mGeometryInstances (fst (started orca ctx aQueue cam))),
             tlas_allow_updates = True,
             tlas_built_from = Some (mGeometryInstances (fst (started orca ctx aQueue cam)))\<rparr>"
proof -
  have "length (mGeometryInstances (fst (started orca ctx aQueue cam))) =
      sum_list (map placements (partitions orca))"
    by (simp only: started_scene length_instances)
  then show ?thesis
    by (simp only: placements_partitions started_tlas simp_thms)
qed

theorem instance_count_and_tlas_witness:
  "length (mGeometryInstances (fst (started example_scene example_context 7 example_camera))) = 7
   \<and> map_option tlas_instance_count
       (mTlas (fst (started example_scene example_context 7 example_camera))) = Some 7"
proof -
  have "(\<Sum>m\<leftarrow>example_scene.
           length (distinct_material_configs (mLoadedModel m)) * length (mInstances m)) = 7"
    by (simp add: example_scene_def)
  then show ?thesis
    using instance_count_and_tlas [of example_scene example_context 7 example_camera]
    by simp
qed

text \<open>
  C3. After \<^verbatim>\<open>initialize\<close> the material buffer holds as many entries as partitions were
  created (the sum of the models' distinct-material counts), and entry i is the converted
  material of partition i in creation order.
\<close>

theorem material_buffer_by_partition:
  "\<exists>materialBuffer.
     mMaterialBuffer (fst (started orca ctx aQueue cam)) = Some materialBuffer
     \<and> length (sb_content materialBuffer) = length (partitions orca)
     \<and> length (partitions orca) =
         (\<Sum>m\<leftarrow>orca. length (distinct_material_configs (mLoadedModel m)))
     \<and> sb_content materialBuffer =
         map (\<lambda>p. Material_gpu_data (partition_material p) True True) (partitions orca)
     \<and> (\<forall>i<length (partitions orca).
          sb_content materialBuffer ! i =
            Material_gpu_data (partition_material (partitions orca ! i)) True True)"
  using length_partitions [of orca] by (simp add: started_material_buffer)

theorem material_buffer_by_partition_witness:
  "\<exists>materialBuffer.
     mMaterialBuffer (fst (started example_scene example_context 7 example_camera)) =
       Some materialBuffer
     \<and> length (sb_content materialBuffer) = 4
     \<and> sb_content materialBuffer ! 3 = Material_gpu_data ''grass'' True True"
proof -
  have parts: "partitions example_scene =
     [(example_scene ! 0, ''stone'', [0, 3]), (example_scene ! 0, ''cloth'', [1]),
      (example_scene ! 0, ''metal'', [2]), (example_scene ! 1, ''grass'', [0])]"
    by (simp add: partitions_def partitions_of_def example_scene_def)
  from material_buffer_by_partition [of example_scene example_context 7 example_camera]
  obtain materialBuffer where
    mb: "mMaterialBuffer (fst (started example_scene example_context 7 example_camera)) =
          Some materialBuffer"
    and len: "length (sb_content materialBuffer) = length (partitions example_scene)"
    and nth: "\<forall>i<length (partitions example_scene).
          sb_content materialBuffer ! i =
            Material_gpu_data (partition_material (partitions example_scene ! i)) True True"
    by blast
  have "3 < length (partitions example_scene)"
    by (simp add: parts)
  with nth have "sb_content materialBuffer ! 3 =
      Material_gpu_data (partition_material (partitions example_scene ! 3)) True True"
    by blast
  then have "sb_content materialBuffer ! 3 = Material_gpu_data ''grass'' True True"
    by (simp add: parts partition_material_def)
  with mb len show ?thesis
    by (simp add: parts)
qed

text \<open>
  C4 (the code departs from it). The comments at lines 41-43 and 368-369 say the recorded
  range of a model indexes \<^verbatim>\<open>mBlas\<close>, and the custom index is the \<^verbatim>\<open>mBlas\<close> index;
  but lines 42 and 92 record \<^verbatim>\<open>mGeometryInstances.size()\<close>. In \<open>small_scene\<close> the
  range recorded for model B is [2, 3), while the instance created from B's partition has
  custom index 1.
\<close>

theorem recorded_range_misses_custom_index:
  "fst (mBlasNamesAndRanges (fst (started small_scene example_context 7 example_camera)) ! 1) = ''B''
   \<and> mGeometryInstances (fst (started small_scene example_context 7 example_camera)) ! 2 =
       instance_of 1 (small_scene ! 1, ''grass'', [0]) (example_instance 9)
   \<and> mBlasNamesAndRanges (fst (started small_scene example_context 7 example_camera)) ! 1 =
       (''B'', 2, 3)
   \<and> mInstanceCustomIndex
       (mGeometryInstances (fst (started small_scene example_context 7 example_camera)) ! 2) = 1
   \<and> \<not> in_recorded_range
         (mBlasNamesAndRanges (fst (started small_scene example_context 7 example_camera)) ! 1)
         (mInstanceCustomIndex
           (mGeometryInstances (fst (started small_scene example_context 7 example_camera)) ! 2))"
proof -
  have ranges: "mBlasNamesAndRanges (fst (started small_scene example_context 7 example_camera)) =
      [(''A'', 0, 2), (''B'', 2, 3)]"
    by (simp add: started_def initialize_scene_members load_scene_def load_models_def
        model_body_ranges model_body_instances constructed_def small_scene_def partitions_of_def
        instances_of_def)
  have insts: "mGeometryInstances (fst (started small_scene example_context 7 example_camera)) =
      [instance_of 0 (small_scene ! 0, ''stone'', [0]) (example_instance 0),
       instance_of 0 (small_scene ! 0, ''stone'', [0]) (example_instance 5),
       instance_of 1 (small_scene ! 1, ''grass'', [0]) (example_instance 9)]"
    by (simp add: started_scene partitions_def partitions_of_def instances_of_def small_scene_def)
  show ?thesis
    by (simp add: ranges insts in_recorded_range_def instance_of_def)
qed

text \<open>
  C10. After \<^verbatim>\<open>initialize\<close> on a scene with at most 2^32 partitions, the four buffer-view
  arrays, the list of bottom-level structures and the gathered material list each hold one
  entry per partition, in creation order, so they have equal length; the instances are
  those created partition by partition, each instance created from partition i has custom
  index i and refers to entry i of the bottom-level structures, and every custom index is
  below the partition count.
\<close>

theorem parallel_arrays_aligned:
  assumes "length (partitions orca) \<le> 2 ^ 32"
  shows "mPositionsBufferViews (fst (started orca ctx aQueue cam)) =
       map (\<lambda>p. Buffer_view (Positions_buffer (partition_selection p))) (partitions orca)
   \<and> mIndexBufferViews (fst (started orca ctx aQueue cam)) =
       map (\<lambda>p. Buffer_view (Index_buffer (partition_selection p))) (partitions orca)
   \<and> mNormalsBufferViews (fst (started orca ctx aQueue cam)) =
       map (\<lambda>p. Buffer_view (Normals_buffer (partition_selection p))) (partitions orca)
   \<and> mTexCoordsBufferViews (fst (started orca ctx aQueue cam)) =
       map (\<lambda>p. Buffer_view (Tex_coords_buffer (partition_selection p))) (partitions orca)
   \<and> mBlas (fst (started orca ctx aQueue cam)) = map partition_blas (partitions orca)
   \<and> snd (load_scene orca (constructed aQueue cam)) = map partition_material (partitions orca)
   \<and> length (mPositionsBufferViews (fst (started orca ctx aQueue cam))) = length (partitions orca)
   \<and> length (mIndexBufferViews (fst (started orca ctx aQueue cam))) = length (partitions orca)
   \<and> length (mNormalsBufferViews (fst (started orca ctx aQueue cam))) = length (partitions orca)
   \<and> length (mTexCoordsBufferViews (fst (started orca ctx aQueue cam))) = length (partitions orca)
   \<and> length (mBlas (fst (started orca ctx aQueue cam))) = length (partitions orca)
   \<and> length (snd (load_scene orca (constructed aQueue cam))) = length (partitions orca)
   \<and> mGeometryInstances (fst (started orca ctx aQueue cam)) =
       concat (map instances_of (enumerate 0 (partitions orca)))
   \<and> (\<forall>i<length (partitions orca). \<forall>g\<in>set (instances_of (i, partitions orca ! i)).
         unat (mInstanceCustomIndex g) = i
         \<and> mBlas (fst (started orca ctx aQueue cam)) ! i = mAccelerationStructure g)
   \<and> (\<forall>g\<in>set (mGeometryInstances (fst (started orca ctx aQueue cam))).
         unat (mInstanceCustomIndex g) < length (partitions orca))"
proof -
  have created: "unat (mInstanceCustomIndex g) = i \<and> partition_blas (partitions orca ! i) = mAccelerationStructure g"
    if "i < length (partitions orca)" "g \<in> set (instances_of (i, partitions orca ! i))" for i g
  proof -
    from that(1) assms have "i < 2 ^ 32" by simp
    then show ?thesis
      using in_instances_of [OF that(2)] by (simp add: unat_of_nat_32)
  qed
  have below: "unat (mInstanceCustomIndex g) < length (partitions orca)"
    if "g \<in> set (concat (map instances_of (enumerate 0 (partitions orca))))" for g
  proof -
    from that have "\<exists>i<length (partitions orca). g \<in> set (instances_of (0 + i, partitions orca ! i))"
      by (simp only: in_concat_instances)
    then obtain i where "i < length (partitions orca)"
      "g \<in> set (instances_of (i, partitions orca ! i))"
      by auto
    then show ?thesis
      using created [of i g] by simp
  qed
  show ?thesis
    using created below by (simp add: started_scene load_scene_fields)
qed

theorem parallel_arrays_aligned_witness:
  "length (partitions example_scene) \<le> 2 ^ 32
   \<and> length (mTexCoordsBufferViews (fst (started example_scene example_context 7 example_camera))) = 4
   \<and> length (mBlas (fst (started example_scene example_context 7 example_camera))) = 4
   \<and> snd (load_scene example_scene (constructed 7 example_camera)) =
       [''stone'', ''cloth'', ''metal'', ''grass'']
   \<and> unat (mInstanceCustomIndex
        (last (mGeometryInstances (fst (started example_scene example_context 7 example_camera))))) < 4"
proof -
  have parts: "partitions example_scene =
     [(example_scene ! 0, ''stone'', [0, 3]), (example_scene ! 0, ''cloth'', [1]),
      (example_scene ! 0, ''metal'', [2]), (example_scene ! 1, ''grass'', [0])]"
    by (simp add: partitions_def partitions_of_def example_scene_def)
  have bound: "length (partitions example_scene) \<le> 2 ^ 32"
    by (simp add: parts)
  let ?st = "fst (started example_scene example_context 7 example_camera)"
  note all = parallel_arrays_aligned [OF bound, of example_context 7 example_camera]
  from all have tex: "length (mTexCoordsBufferViews ?st) = length (partitions example_scene)"
    by (elim conjE) assumption
  from all have blas: "length (mBlas ?st) = length (partitions example_scene)"
    by (elim conjE) assumption
  from all have mats: "snd (load_scene example_scene (constructed 7 example_camera)) =
      map partition_material (partitions example_scene)"
    by (elim conjE) assumption
  from all have insts: "mGeometryInstances ?st =
      concat (map instances_of (enumerate 0 (partitions example_scene)))"
    by (elim conjE) assumption
  from all have below: "\<forall>g\<in>set (mGeometryInstances ?st).
      unat (mInstanceCustomIndex g) < length (partitions example_scene)"
    by (elim conjE) assumption
  have "mGeometryInstances ?st \<noteq> []"
    unfolding insts parts by (simp add: instances_of_def example_scene_def)
  then have "last (mGeometryInstances ?st) \<in> set (mGeometryInstances ?st)"
    by (rule last_in_set)
  with below have "unat (mInstanceCustomIndex (last (mGeometryInstances ?st)))
      < length (partitions example_scene)"
    by blast
  then show ?thesis
    using bound by (simp add: tex blas mats parts partition_material_def)
qed

section \<open>Properties of the frame loop\<close>

text \<open>
  C5. In every frame of a started application, whatever happened before, the command
  buffer \<^verbatim>\<open>render\<close> submits binds the pipeline and the descriptors, then writes the
  push constants, then dispatches the trace. The push constants are the camera's
  transformation matrix, then \<^verbatim>\<open>radians(mFieldOfViewForRayTracing) * 0.5f\<close>, then three
  floats 0, then the light direction with 0 as fourth component; they are written for,
  and the pipeline declares them for, the ray generation and closest hit stages.
\<close>

theorem push_constants_written:
  fixes evs orca ctx aQueue cam inp backbuffer semaphore
  defines "sc \<equiv> run evs (started orca ctx aQueue cam)"
  defines "fs \<equiv> frame_state inp backbuffer semaphore (run evs (started orca ctx aQueue cam))"
  shows "\<exists>p v sets st' sub. mPipeline (fst sc) = Some p
    \<and> mOffscreenImageView (fst sc) = Some v
    \<and> mPushConstants p =
         \<lparr>mShaderStages = {Ray_generation, Closest_hit}, mOffset = 0,
          mSize = sizeof_push_const_data\<rparr>
    \<and> render (snd fs) (fst fs) = Some (st', [sub])
    \<and> take 4 (cb_commands (sub_command_buffer sub)) =
         [Bind_pipeline (pipeline_handle p),
          Bind_descriptors (pipeline_handle p) sets,
          Push_constants (pipeline_handle p) {Ray_generation, Closest_hit} 0 sizeof_push_const_data
            [Mat4_member (global_transformation_matrix (mQuakeCam (fst sc))),
             Float_member (Fmul (Radians (mFieldOfViewForRayTracing (fst sc))) (Float_lit 5 1)),
             Float_member (Float_lit 0 0), Float_member (Float_lit 0 0),
             Float_member (Float_lit 0 0),
             Vec4_member (fst (mLightDir (fst sc)), fst (snd (mLightDir (fst sc))),
                          snd (snd (mLightDir (fst sc))), Float_lit 0 1)],
          Trace_rays (image_width (view_image v), image_height (view_image v))
            (pipeline_handle p) 0 0 0]"
proof -
  have c: "consistent sc"
    unfolding sc_def by (rule consistent_reachable)
  have fs: "fs = frame_state inp backbuffer semaphore sc"
    by (simp add: fs_def sc_def)
  from frame_render [OF c, of inp backbuffer semaphore]
  obtain p mb v t st' sub where p: "mPipeline (fst sc) = Some p"
    and v: "mOffscreenImageView (fst sc) = Some v"
    and pc: "mPushConstants p =
         \<lparr>mShaderStages = {Ray_generation, Closest_hit}, mOffset = 0,
          mSize = sizeof_push_const_data\<rparr>"
    and r: "render (snd fs) (fst fs) = Some (st', [sub])"
    and sub: "sub = \<lparr>sub_queue = mQueue (fst sc),
            sub_command_buffer =
              \<lparr>cb_state = Executable,
               cb_commands =
                 [Bind_pipeline (pipeline_handle p),
                  Bind_descriptors (pipeline_handle p)
                    (fst (get_or_create_descriptor_sets (bound_resources (fst fs) mb v t)
                            (mDescriptorCache (fst fs)))),
                  Push_constants (pipeline_handle p) {Ray_generation, Closest_hit} 0
                    sizeof_push_const_data (push_constants_of (fst sc)),
                  Trace_rays (image_width (view_image v), image_height (view_image v))
                    (pipeline_handle p) 0 0 0,
                  Global_memory_barrier Stage_ray_tracing_shaders Stage_transfer
                    Shader_buffers_and_images_write_access Transfer_read_access,
                  Copy_image_to_another v backbuffer,
                  Global_memory_barrier Stage_transfer Stage_color_attachment_output
                    Transfer_write_access Color_attachment_write_access]\<rparr>,
            sub_wait_semaphore = semaphore\<rparr>"
    unfolding fs by blast
  have tk: "take 4 (cb_commands (sub_command_buffer sub)) =
         [Bind_pipeline (pipeline_handle p),
          Bind_descriptors (pipeline_handle p)
            (fst (get_or_create_descriptor_sets (bound_resources (fst fs) mb v t)
                    (mDescriptorCache (fst fs)))),
          Push_constants (pipeline_handle p) {Ray_generation, Closest_hit} 0 sizeof_push_const_data
            [Mat4_member (global_transformation_matrix (mQuakeCam (fst sc))),
             Float_member (Fmul (Radians (mFieldOfViewForRayTracing (fst sc))) (Float_lit 5 1)),
             Float_member (Float_lit 0 0), Float_member (Float_lit 0 0),
             Float_member (Float_lit 0 0),
             Vec4_member (fst (mLightDir (fst sc)), fst (snd (mLightDir (fst sc))),
                          snd (snd (mLightDir (fst sc))), Float_lit 0 1)],
          Trace_rays (image_width (view_image v), image_height (view_image v))
            (pipeline_handle p) 0 0 0]"
    by (simp add: sub push_constants_of_def)
  show ?thesis
    by (intro exI conjI) (rule p, rule v, rule pc, rule r, rule tk)
qed

theorem push_constants_written_witness:
  "\<exists>sets st' sub.
     render (snd (frame_state idle_input 100 200
                    (started example_scene example_context 7 example_camera)))
            (fst (frame_state idle_input 100 200
                    (started example_scene example_context 7 example_camera))) =
       Some (st', [sub])
     \<and> take 4 (cb_commands (sub_command_buffer sub)) =
         [Bind_pipeline 1001,
          Bind_descriptors 1001 sets,
          Push_constants 1001 {Ray_generation, Closest_hit} 0 96
            [Mat4_member (replicate 16 (Float_lit 0 0)),
             Float_member (Fmul (Radians (Float_lit 450 1)) (Float_lit 5 1)),
             Float_member (Float_lit 0 0), Float_member (Float_lit 0 0),
             Float_member (Float_lit 0 0),
             Vec4_member (Float_lit 8 1, Float_lit 10 1, Float_lit 0 1, Float_lit 0 1)],
          Trace_rays (1920, 1080) 1001 0 0 0]"
proof -
  let ?st = "fst (started example_scene example_context 7 example_camera)"
  from push_constants_written [of "[]" example_scene example_context 7 example_camera
      idle_input 100 200]
  obtain p v sets st' sub where
    p: "mPipeline ?st = Some p"
    and v: "mOffscreenImageView ?st = Some v"
    and r: "render (snd (frame_state idle_input 100 200
                    (started example_scene example_context 7 example_camera)))
            (fst (frame_state idle_input 100 200
                    (started example_scene example_context 7 example_camera))) =
       Some (st', [sub])"
    and t: "take 4 (cb_commands (sub_command_buffer sub)) =
         [Bind_pipeline (pipeline_handle p),
          Bind_descriptors (pipeline_handle p) sets,
          Push_constants (pipeline_handle p) {Ray_generation, Closest_hit} 0 sizeof_push_const_data
            [Mat4_member (global_transformation_matrix (mQuakeCam ?st)),
             Float_member (Fmul (Radians (mFieldOfViewForRayTracing ?st)) (Float_lit 5 1)),
             Float_member (Float_lit 0 0), Float_member (Float_lit 0 0),
             Float_member (Float_lit 0 0),
             Vec4_member (fst (mLightDir ?st), fst (snd (mLightDir ?st)),
                          snd (snd (mLightDir ?st)), Float_lit 0 1)],
          Trace_rays (image_width (view_image v), image_height (view_image v))
            (pipeline_handle p) 0 0 0]"
    unfolding run_Nil by blast
  from p have ph: "pipeline_handle p = 1001"
    using started_example(2) by simp
  from v have vv: "v = \<lparr>view_handle = 1000,
           view_image = \<lparr>image_width = 1920, image_height = 1080, image_format = 50,
                         image_num_layers = 1, image_layout_transitioned = True\<rparr>\<rparr>"
    using started_example(1) by simp
  have w: "image_width (view_image v) = 1920" "image_height (view_image v) = 1080"
    by (simp_all add: vv)
  have "take 4 (cb_commands (sub_command_buffer sub)) =
         [Bind_pipeline 1001,
          Bind_descriptors 1001 sets,
          Push_constants 1001 {Ray_generation, Closest_hit} 0 96
            [Mat4_member (replicate 16 (Float_lit 0 0)),
             Float_member (Fmul (Radians (Float_lit 450 1)) (Float_lit 5 1)),
             Float_member (Float_lit 0 0), Float_member (Float_lit 0 0),
             Float_member (Float_lit 0 0),
             Vec4_member (Float_lit 8 1, Float_lit 10 1, Float_lit 0 1, Float_lit 0 1)],
          Trace_rays (1920, 1080) 1001 0 0 0]"
    unfolding t ph w
    by (simp add: started_ui sizeof_push_const_data_def example_camera_def)
  with r show ?thesis
    by (intro exI conjI)
qed

text \<open>
  C6. In every frame of a started application the command buffer holds exactly: bind
  pipeline, bind descriptors, push constants, a trace of as many rays as the render target
  has pixels, a global barrier from ray tracing writes to transfer reads, the copy of the
  render target into the current backbuffer, a global barrier from transfer writes to
  colour attachment writes; recording is ended, and the one submission goes to the queue
  the application was constructed with and waits on the image-available semaphore.
\<close>

theorem frame_command_sequence:
  fixes evs orca ctx aQueue cam inp backbuffer semaphore
  defines "sc \<equiv> run evs (started orca ctx aQueue cam)"
  defines "fs \<equiv> frame_state inp backbuffer semaphore (run evs (started orca ctx aQueue cam))"
  shows "\<exists>p v sets st'. mPipeline (fst sc) = Some p \<and> mOffscreenImageView (fst sc) = Some v
    \<and> render (snd fs) (fst fs) =
        Some (st',
          [\<lparr>sub_queue = aQueue,
            sub_command_buffer =
              \<lparr>cb_state = Executable,
               cb_commands =
                 [Bind_pipeline (pipeline_handle p),
                  Bind_descriptors (pipeline_handle p) sets,
                  Push_constants (pipeline_handle p) {Ray_generation, Closest_hit} 0
                    sizeof_push_const_data (push_constants_of (fst sc)),
                  Trace_rays (image_width (view_image v), image_height (view_image v))
                    (pipeline_handle p) 0 0 0,
                  Global_memory_barrier Stage_ray_tracing_shaders Stage_transfer
                    Shader_buffers_and_images_write_access Transfer_read_access,
                  Copy_image_to_another v backbuffer,
                  Global_memory_barrier Stage_transfer Stage_color_attachment_output
                    Transfer_write_access Color_attachment_write_access]\<rparr>,
            sub_wait_semaphore = semaphore\<rparr>])"
proof -
  have c: "consistent sc"
    unfolding sc_def by (rule consistent_reachable)
  have q: "mQueue (fst sc) = aQueue"
    unfolding sc_def by (rule queue_reachable)
  have fs: "fs = frame_state inp backbuffer semaphore sc"
    by (simp add: fs_def sc_def)
  from frame_render [OF c, of inp backbuffer semaphore] show ?thesis
    unfolding q fs by blast
qed

theorem frame_command_sequence_witness:
  "\<exists>sets st'.
     render (snd (frame_state idle_input 100 200
                    (started example_scene example_context 7 example_camera)))
            (fst (frame_state idle_input 100 200
                    (started example_scene example_context 7 example_camera))) =
       Some (st',
         [\<lparr>sub_queue = 7,
           sub_command_buffer =
             \<lparr>cb_state = Executable,
              cb_commands =
                [Bind_pipeline 1001,
                 Bind_descriptors 1001 sets,
                 Push_constants 1001 {Ray_generation, Closest_hit} 0 sizeof_push_const_data
                   (push_constants_of (fst (started example_scene example_context 7 example_camera))),
                 Trace_rays (1920, 1080) 1001 0 0 0,
                 Global_memory_barrier Stage_ray_tracing_shaders Stage_transfer
                   Shader_buffers_and_images_write_access Transfer_read_access,
                 Copy_image_to_another
                   \<lparr>view_handle = 1000,
                    view_image = \<lparr>image_width = 1920, image_height = 1080, image_format = 50,
                                  image_num_layers = 1, image_layout_transitioned = True\<rparr>\<rparr> 100,
                 Global_memory_barrier Stage_transfer Stage_color_attachment_output
                   Transfer_write_access Color_attachment_write_access]\<rparr>,
           sub_wait_semaphore = 200\<rparr>])"
proof -
  from frame_command_sequence [of "[]" example_scene example_context 7 example_camera
      idle_input 100 200]
  obtain p v sets st' where
    p: "mPipeline (fst (started example_scene example_context 7 example_camera)) = Some p"
    and v: "mOffscreenImageView (fst (started example_scene example_context 7 example_camera)) = Some v"
    and r: "render (snd (frame_state idle_input 100 200
                    (started example_scene example_context 7 example_camera)))
            (fst (frame_state idle_input 100 200
                    (started example_scene example_context 7 example_camera))) =
       Some (st',
         [\<lparr>sub_queue = 7,
           sub_command_buffer =
             \<lparr>cb_state = Executable,
              cb_commands =
                [Bind_pipeline (pipeline_handle p),
                 Bind_descriptors (pipeline_handle p) sets,
                 Push_constants (pipeline_handle p) {Ray_generation, Closest_hit} 0
                   sizeof_push_const_data
                   (push_constants_of (fst (started example_scene example_context 7 example_camera))),
                 Trace_rays (image_width (view_image v), image_height (view_image v))
                   (pipeline_handle p) 0 0 0,
                 Global_memory_barrier Stage_ray_tracing_shaders Stage_transfer
                   Shader_buffers_and_images_write_access Transfer_read_access,
                 Copy_image_to_another v 100,
                 Global_memory_barrier Stage_transfer Stage_color_attachment_output
                   Transfer_write_access Color_attachment_write_access]\<rparr>,
           sub_wait_semaphore = 200\<rparr>])"
    unfolding run_Nil by blast
  from p have ph: "pipeline_handle p = 1001"
    using started_example(2) by simp
  from v have vv: "v = \<lparr>view_handle = 1000,
           view_image = \<lparr>image_width = 1920, image_height = 1080, image_format = 50,
                         image_num_layers = 1, image_layout_transitioned = True\<rparr>\<rparr>"
    using started_example(1) by simp
  have w: "image_width (view_image v) = 1920" "image_height (view_image v) = 1080"
    by (simp_all add: vv)
  show ?thesis
    using r unfolding ph w unfolding vv by (intro exI)
qed

text \<open>
  C7 (the code departs from it). The comments at lines 203 and 206 say that the directional
  keys move the top-level structure and that it is to be updated for all frames in flight,
  and line 118 creates it updatable; lines 204-209 keep the window of
  number_of_frames_in_flight frames. But every statement of the guarded block is commented
  out (lines 211-243). With the left arrow key down in frame 0, no key in the four frames
  after it and three frames in flight, frames 0, 1 and 2 pass the guard and frames 3 and 4
  do not, and \<^verbatim>\<open>update\<close> leaves the top-level structure and the geometry instances
  as they were, in the frame of the key and in any other frame.
\<close>

theorem tlas_update_missing_in_window:
  "directional left_input
   \<and> list_all (\<lambda>i. \<not> directional i) [idle_input, idle_input, idle_input, idle_input]
   \<and> number_of_frames_in_flight example_context = 3
   \<and> gate_trace [left_input, idle_input, idle_input, idle_input, idle_input] example_context
        (fst (started small_scene example_context 7 example_camera)) =
      [True, True, True, False, False]
   \<and> \<not> tlas_update_issued (fst (started small_scene example_context 7 example_camera))
         (fst (update left_input example_context
                 (fst (started small_scene example_context 7 example_camera))))
   \<and> \<not> tlas_update_issued st (fst (update inp ctx st))"
proof -
  have d: "directional left_input"
    by (simp add: directional_def left_input_def)
  have i: "list_all (\<lambda>i. \<not> directional i) [idle_input, idle_input, idle_input, idle_input]"
    by (simp add: directional_def idle_input_def)
  have f: "0 \<le> sint (current_frame example_context)"
    by (simp add: example_context_def)
  have n: "0 < sint (number_of_frames_in_flight example_context)"
    by (simp add: example_context_def)
  have three: "number_of_frames_in_flight example_context = 3"
    by (simp add: example_context_def)
  have b: "sint (current_frame example_context) + sint (number_of_frames_in_flight example_context)
      + int (length [idle_input, idle_input, idle_input, idle_input]) < 2 ^ 63"
    by (simp add: example_context_def)
  have m: "map (\<lambda>k. int k < sint (number_of_frames_in_flight example_context))
      [0..<Suc (length [idle_input, idle_input, idle_input, idle_input])] =
      [True, True, True, False, False]"
    by (simp add: example_context_def upt_conv_Cons)
  have g: "gate_trace [left_input, idle_input, idle_input, idle_input, idle_input] example_context
        (fst (started small_scene example_context 7 example_camera)) =
      [True, True, True, False, False]"
    using update_window_frames [OF d i f n b,
        of "fst (started small_scene example_context 7 example_camera)", THEN conjunct1]
    by (simp only: m)
  show ?thesis
    by (intro conjI d i three g update_issues_nothing)
qed

text \<open>
  C8. For a started application, whatever happened before: a resize leaves a new render
  target of the new dimensions, with a new handle, and the rebuilt pipeline's binding
  refers to it, the old one awaiting destruction; a cleanup leaves no cached descriptor
  set that refers to a superseded render target whose frames have retired; and after two
  resizes to the same dimensions, once all superseded render targets have retired, the
  pipeline's binding and the cached descriptor sets refer to the latest render target
  only.
\<close>

theorem resize_supersedes_render_target:
  fixes evs orca ctx aQueue cam w h ctx'
  defines "sc \<equiv> run evs (started orca ctx aQueue cam)"
  defines "sc1 \<equiv> app_step (Swapchain_resized w h) (run evs (started orca ctx aQueue cam))"
  defines "sc2 \<equiv> app_step (Swapchain_resized w h)
                   (app_step (Swapchain_resized w h) (run evs (started orca ctx aQueue cam)))"
  shows "\<exists>old new latest.
      mOffscreenImageView (fst sc) = Some old
    \<and> mOffscreenImageView (fst sc1) = Some new
    \<and> (image_width (view_image new), image_height (view_image new)) = (w, h)
    \<and> view_handle new \<noteq> view_handle old
    \<and> pipeline_targets (fst sc1) = [new]
    \<and> old \<in> set (superseded (fst sc1))
    \<and> (\<forall>e\<in>set (awaiting (fst sc1)). retired ctx' (fst e) \<longrightarrow>
          list_all (\<lambda>ds. \<not> references_handle (view_handle (snd e)) ds)
            (mDescriptorCache (updater_cleanup ctx' (fst sc1))))
    \<and> mOffscreenImageView (fst sc2) = Some latest
    \<and> (image_width (view_image latest), image_height (view_image latest)) = (w, h)
    \<and> view_handle latest \<noteq> view_handle old \<and> view_handle latest \<noteq> view_handle new
    \<and> pipeline_targets (fst sc2) = [latest]
    \<and> (all_retired ctx' (fst sc2) \<longrightarrow>
          superseded (updater_cleanup ctx' (fst sc2)) = []
        \<and> mOffscreenImageView (updater_cleanup ctx' (fst sc2)) = Some latest
        \<and> pipeline_targets (updater_cleanup ctx' (fst sc2)) = [latest]
        \<and> set (cached_targets (updater_cleanup ctx' (fst sc2))) \<subseteq> {latest}
        \<and> list_all (\<lambda>ds. \<not> references_handle (view_handle old) ds
                         \<and> \<not> references_handle (view_handle new) ds)
              (mDescriptorCache (updater_cleanup ctx' (fst sc2))))"
proof -
  obtain st c where sc: "sc = (st, c)"
    by (cases sc)
  have c0: "consistent (st, c)"
    using consistent_reachable [of evs orca ctx aQueue cam] by (simp add: sc_def [symmetric] sc)
  then obtain old where old: "mOffscreenImageView st = Some old"
    unfolding consistent_iff by blast
  have sc1: "sc1 = app_step (Swapchain_resized w h) (st, c)"
    by (simp only: sc1_def sc_def [symmetric] sc)
  obtain st1 c1 where p1: "app_step (Swapchain_resized w h) (st, c) = (st1, c1)"
    by (cases "app_step (Swapchain_resized w h) (st, c)")
  have sc2: "sc2 = app_step (Swapchain_resized w h) (st1, c1)"
    by (simp only: sc2_def sc_def [symmetric] sc p1)
  obtain st2 c2 where p2: "app_step (Swapchain_resized w h) (st1, c1) = (st2, c2)"
    by (cases "app_step (Swapchain_resized w h) (st1, c1)")
  let ?new = "resized_view w h old c"
  let ?latest = "resized_view w h ?new c1"
  note r1 = resize_effect(1-5) [OF c0 old, of w h, unfolded p1 fst_conv snd_conv]
  note h0 = resize_effect(6) [OF c0 old]
  have c1: "consistent (st1, c1)"
    using consistent_resize [OF c0, of w h] unfolding p1 .
  note r2 = resize_effect(1-5) [OF c1 r1(1), of w h, unfolded p2 fst_conv snd_conv]
  have c2: "consistent (st2, c2)"
    using consistent_resize [OF c1, of w h] unfolding p2 .
  have hnew: "view_handle ?new = next_handle c" and hlatest: "view_handle ?latest = Suc (Suc (next_handle c))"
    by (simp_all add: resized_view_def r1(4))
  have a2: "awaiting st2 = awaiting st @ [(current_frame c, old), (current_frame c, ?new)]"
    by (simp add: r2(3) r1(3) r1(5))
  have clean1: "\<forall>e\<in>set (awaiting st1). retired ctx' (fst e) \<longrightarrow>
          list_all (\<lambda>ds. \<not> references_handle (view_handle (snd e)) ds)
            (mDescriptorCache (updater_cleanup ctx' st1))"
    using cleanup_effect(1) [OF c1, of _ ctx'] by blast
  have final: "superseded (updater_cleanup ctx' st2) = []
        \<and> mOffscreenImageView (updater_cleanup ctx' st2) = Some ?latest
        \<and> pipeline_targets (updater_cleanup ctx' st2) = [?latest]
        \<and> set (cached_targets (updater_cleanup ctx' st2)) \<subseteq> {?latest}
        \<and> list_all (\<lambda>ds. \<not> references_handle (view_handle old) ds
                         \<and> \<not> references_handle (view_handle ?new) ds)
              (mDescriptorCache (updater_cleanup ctx' st2))"
    if gone: "all_retired ctx' st2"
  proof -
    from gone have every: "\<And>e. e \<in> set (awaiting st2) \<Longrightarrow> retired ctx' (fst e)"
      by (simp add: all_retired_awaiting list_all_iff)
    then have none: "awaiting (updater_cleanup ctx' st2) = []"
      by (simp add: cleanup_effect(2) [OF c2] filter_empty_conv)
    then have sup: "superseded (updater_cleanup ctx' st2) = []"
      by (simp add: superseded_awaiting)
    have view: "mOffscreenImageView (updater_cleanup ctx' st2) = Some ?latest"
      by (simp add: cleanup_effect(3) [OF c2] r2(1))
    have pipe: "pipeline_targets (updater_cleanup ctx' st2) = [?latest]"
      by (simp add: cleanup_effect(4) [OF c2] r2(2))
    have "consistent (updater_cleanup ctx' st2, c2)"
      by (rule consistent_cleanup [OF c2])
    from consistent_targets(2) [OF this view]
    have cache: "set (cached_targets (updater_cleanup ctx' st2)) \<subseteq> {?latest}"
      by (simp add: sup)
    have "(current_frame c, old) \<in> set (awaiting st2)" "(current_frame c, ?new) \<in> set (awaiting st2)"
      by (simp_all add: a2)
    then have "list_all (\<lambda>ds. \<not> references_handle (view_handle old) ds)
          (mDescriptorCache (updater_cleanup ctx' st2))"
      "list_all (\<lambda>ds. \<not> references_handle (view_handle ?new) ds)
          (mDescriptorCache (updater_cleanup ctx' st2))"
      using cleanup_effect(1) [OF c2, of "(current_frame c, old)" ctx']
        cleanup_effect(1) [OF c2, of "(current_frame c, ?new)" ctx'] every
      by auto
    then have "list_all (\<lambda>ds. \<not> references_handle (view_handle old) ds
                         \<and> \<not> references_handle (view_handle ?new) ds)
              (mDescriptorCache (updater_cleanup ctx' st2))"
      by (auto simp: list_all_iff)
    with sup view pipe cache show ?thesis
      by blast
  qed
  have "mOffscreenImageView (fst sc) = Some old
    \<and> mOffscreenImageView (fst sc1) = Some ?new
    \<and> (image_width (view_image ?new), image_height (view_image ?new)) = (w, h)
    \<and> view_handle ?new \<noteq> view_handle old
    \<and> pipeline_targets (fst sc1) = [?new]
    \<and> old \<in> set (superseded (fst sc1))
    \<and> (\<forall>e\<in>set (awaiting (fst sc1)). retired ctx' (fst e) \<longrightarrow>
          list_all (\<lambda>ds. \<not> references_handle (view_handle (snd e)) ds)
            (mDescriptorCache (updater_cleanup ctx' (fst sc1))))
    \<and> mOffscreenImageView (fst sc2) = Some ?latest
    \<and> (image_width (view_image ?latest), image_height (view_image ?latest)) = (w, h)
    \<and> view_handle ?latest \<noteq> view_handle old \<and> view_handle ?latest \<noteq> view_handle ?new
    \<and> pipeline_targets (fst sc2) = [?latest]
    \<and> (all_retired ctx' (fst sc2) \<longrightarrow>
          superseded (updater_cleanup ctx' (fst sc2)) = []
        \<and> mOffscreenImageView (updater_cleanup ctx' (fst sc2)) = Some ?latest
        \<and> pipeline_targets (updater_cleanup ctx' (fst sc2)) = [?latest]
        \<and> set (cached_targets (updater_cleanup ctx' (fst sc2))) \<subseteq> {?latest}
        \<and> list_all (\<lambda>ds. \<not> references_handle (view_handle old) ds
                         \<and> \<not> references_handle (view_handle ?new) ds)
              (mDescriptorCache (updater_cleanup ctx' (fst sc2))))"
    unfolding sc1 sc2 p1 p2 fst_conv snd_conv sc
    using old r1(1,2) h0 r2(1,2) clean1 final hnew hlatest
    by (simp add: superseded_awaiting r1(3) resized_view_def)
  then show ?thesis
    by blast
qed

theorem resize_supersedes_render_target_witness:
  "all_retired (example_context\<lparr>current_frame := 4\<rparr>)
     (fst (app_step (Swapchain_resized 800 600) (app_step (Swapchain_resized 800 600)
        (run [Frame idle_input 100 200] (started example_scene example_context 7 example_camera)))))
   \<and> superseded (updater_cleanup (example_context\<lparr>current_frame := 4\<rparr>)
        (fst (app_step (Swapchain_resized 800 600) (app_step (Swapchain_resized 800 600)
           (run [Frame idle_input 100 200]
              (started example_scene example_context 7 example_camera)))))) = []
   \<and> (\<exists>latest.
         pipeline_targets (updater_cleanup (example_context\<lparr>current_frame := 4\<rparr>)
           (fst (app_step (Swapchain_resized 800 600) (app_step (Swapchain_resized 800 600)
              (run [Frame idle_input 100 200]
                 (started example_scene example_context 7 example_camera)))))) = [latest]
         \<and> (image_width (view_image latest), image_height (view_image latest)) = (800, 600)
         \<and> set (cached_targets (updater_cleanup (example_context\<lparr>current_frame := 4\<rparr>)
              (fst (app_step (Swapchain_resized 800 600) (app_step (Swapchain_resized 800 600)
                 (run [Frame idle_input 100 200]
                    (started example_scene example_context 7 example_camera))))))) \<subseteq> {latest})"
proof -
  let ?sc = "run [Frame idle_input 100 200] (started example_scene example_context 7 example_camera)"
  let ?sc2 = "app_step (Swapchain_resized 800 600) (app_step (Swapchain_resized 800 600) ?sc)"
  let ?ctx = "example_context\<lparr>current_frame := 4\<rparr>"
  have c0: "consistent (started example_scene example_context 7 example_camera)"
    by (rule consistent_started)
  have sc: "?sc = app_step (Frame idle_input 100 200)
      (started example_scene example_context 7 example_camera)"
    by (simp add: run_def del: app_step.simps)
  have aw: "awaiting (fst ?sc) = []"
    unfolding sc by (simp only: frame_effect(1) [OF c0] started_resources filter.simps)
  have fr: "current_frame (snd ?sc) = 1"
    unfolding sc by (simp only: frame_effect(2) [OF c0] started_resources)
      (simp add: example_context_def)
  have c: "consistent (fst ?sc, snd ?sc)"
    using consistent_reachable [of "[Frame idle_input 100 200]" example_scene example_context 7
        example_camera] by simp
  from double_resize_awaiting [OF c, of 800 600] obtain old new where
    "awaiting (fst ?sc2) = awaiting (fst ?sc) @ [(current_frame (snd ?sc), old),
        (current_frame (snd ?sc), new)]"
    by (auto simp del: app_step.simps)
  then have a2: "awaiting (fst ?sc2) = [(1, old), (1, new)]"
    by (simp only: aw fr append.simps)
  have "retired ?ctx 1"
    by (simp add: retired_def example_context_def word_sle_eq)
  then have ar: "all_retired ?ctx (fst ?sc2)"
    by (simp only: all_retired_awaiting a2 list.pred_inject fst_conv simp_thms)
  from resize_supersedes_render_target [of "[Frame idle_input 100 200]" example_scene
      example_context 7 example_camera 800 600 ?ctx] ar
  show ?thesis
    by (elim exE conjE) (intro conjI exI; (assumption | blast))
qed

text \<open>
  C9. For a started application, whatever happened before, a change of the shader files
  rebuilds the pipeline object (it gets a new handle) and changes no other member: the
  buffer views, the material buffer, the bottom-level structures, the geometry instances,
  the top-level structure and the render target are the same.
\<close>

theorem shader_change_rebuilds_only_pipeline:
  fixes evs orca ctx aQueue cam
  defines "sc \<equiv> run evs (started orca ctx aQueue cam)"
  defines "sc' \<equiv> app_step Shader_files_changed (run evs (started orca ctx aQueue cam))"
  shows "\<exists>p. mPipeline (fst sc) = Some p
    \<and> fst sc' = (fst sc)\<lparr>mPipeline := Some (p\<lparr>pipeline_handle := next_handle (snd sc)\<rparr>)\<rparr>
    \<and> mPositionsBufferViews (fst sc') = mPositionsBufferViews (fst sc)
    \<and> mIndexBufferViews (fst sc') = mIndexBufferViews (fst sc)
    \<and> mNormalsBufferViews (fst sc') = mNormalsBufferViews (fst sc)
    \<and> mTexCoordsBufferViews (fst sc') = mTexCoordsBufferViews (fst sc)
    \<and> mMaterialBuffer (fst sc') = mMaterialBuffer (fst sc)
    \<and> mBlas (fst sc') = mBlas (fst sc)
    \<and> mGeometryInstances (fst sc') = mGeometryInstances (fst sc)
    \<and> mTlas (fst sc') = mTlas (fst sc)
    \<and> mOffscreenImageView (fst sc') = mOffscreenImageView (fst sc)"
proof -
  obtain st c where sc: "sc = (st, c)"
    by (cases sc)
  have "consistent (st, c)"
    using consistent_reachable [of evs orca ctx aQueue cam] by (simp add: sc_def [symmetric] sc)
  then obtain p v u where f: "mPipeline st = Some p" "mOffscreenImageView st = Some v"
      "mUpdater st = Some u" "mRegistrations u = updater_registrations"
    and sv: "storage_views (mResourceBindings p) = [v]"
    unfolding consistent_iff by blast
  have sc': "sc' = app_step Shader_files_changed (st, c)"
    by (simp add: sc'_def sc_def [symmetric] sc)
  have "p\<lparr>pipeline_handle := next_handle c,
          mResourceBindings := map (rebind st) (mResourceBindings p)\<rparr> =
      p\<lparr>pipeline_handle := next_handle c\<rparr>"
    by (simp add: rebind_same [OF f(2) sv])
  then have "fst sc' = st\<lparr>mPipeline := Some (p\<lparr>pipeline_handle := next_handle c\<rparr>)\<rparr>"
    unfolding sc' shader_step [OF f(1) f(3) f(4)] by simp
  then show ?thesis
    using f(1) by (simp add: sc)
qed

theorem shader_change_rebuilds_only_pipeline_witness:
  "mTlas (fst (app_step Shader_files_changed (started example_scene example_context 7 example_camera))) =
     mTlas (fst (started example_scene example_context 7 example_camera))
   \<and> mBlas (fst (app_step Shader_files_changed (started example_scene example_context 7 example_camera))) =
     mBlas (fst (started example_scene example_context 7 example_camera))
   \<and> mOffscreenImageView
       (fst (app_step Shader_files_changed (started example_scene example_context 7 example_camera))) =
     mOffscreenImageView (fst (started example_scene example_context 7 example_camera))
   \<and> map_option pipeline_handle
       (mPipeline (fst (app_step Shader_files_changed
                          (started example_scene example_context 7 example_camera)))) = Some 1002"
proof -
  have "next_handle (snd (started example_scene example_context 7 example_camera)) = 1002"
    by (simp add: started_resources example_context_def)
  then show ?thesis
    using shader_change_rebuilds_only_pipeline [of "[]" example_scene example_context 7 example_camera]
    by (auto simp del: app_step.simps)
qed

end
